theory Spec2Isabelle
  imports Main "HOL-Library.AList" "HOL-Library.Sublist"
begin

section \<open>Values shared by the adapter: JSON, errors, remote calls\<close>

text \<open>
  The CloudFormation template is a plain JavaScript object. String-keyed objects keep
  their keys in insertion order and an assignment to an existing key replaces the value
  in place, which is what \<open>AList.update\<close> does on an association list.
  \<open>JUndefined\<close> is the JavaScript value \<open>undefined\<close> (a property holding it is
  left out by \<open>JSON.stringify\<close>).
\<close>

datatype json =
    JUndefined
  | JBool bool
  | JNum int
  | JStr string
  | JArr "json list"
  | JObj "(string \<times> json) list"

fun jget :: "json \<Rightarrow> string \<Rightarrow> json" where
  "jget (JObj kvs) k = (case map_of kvs k of Some v \<Rightarrow> v | None \<Rightarrow> JUndefined)"
| "jget j k = JUndefined"

fun jset :: "json \<Rightarrow> string \<Rightarrow> json \<Rightarrow> json" where
  "jset (JObj kvs) k v = JObj (AList.update k v kvs)"
| "jset j k v = j"

definition ref :: "string \<Rightarrow> json" where
  "ref n = JObj [(''Ref'', JStr n)]"

definition getAtt :: "string \<Rightarrow> string \<Rightarrow> json" where
  "getAtt n a = JObj [(''Fn::GetAtt'', JArr [JStr n, JStr a])]"

definition fnJoin :: "string \<Rightarrow> json list \<Rightarrow> json" where
  "fnJoin sep parts = JObj [(''Fn::Join'', JArr [JStr sep, JArr parts])]"

text \<open>A thrown JavaScript error: its \<open>name\<close> and its \<open>message\<close>.\<close>

datatype error = Error (errName: string) (message: string)

section \<open>GenezioCloudFormationBuilder\<close>

record builder =
  template :: json
  resourceIds :: "string list"
  apiGatewayResourceName :: string

definition newBuilder :: "string \<Rightarrow> builder" where
  "newBuilder gw =
     \<lparr> template = JObj
         [(''Resources'', JObj
            [(gw, JObj
               [(''Type'', JStr ''AWS::ApiGatewayV2::Api''),
                (''Properties'', JObj
                   [(''Name'', JStr gw),
                    (''ProtocolType'', JStr ''HTTP''),
                    (''Description'', JStr (''API Gateway for Genezio Project '' @ gw @ ''}'')),
                    (''CorsConfiguration'', JObj
                       [(''AllowOrigins'', JArr [JStr ''*'']),
                        (''AllowMethods'', JArr [JStr ''*'']),
                        (''AllowHeaders'', JArr [JStr ''*'']),
                        (''MaxAge'', JNum 10800)])])])]),
          (''AWSTemplateFormatVersion'', JStr ''2010-09-09'')],
       resourceIds = [],
       apiGatewayResourceName = gw \<rparr>"

definition addResource :: "builder \<Rightarrow> string \<Rightarrow> json \<Rightarrow> builder" where
  "addResource b name content =
     b \<lparr> template := jset (template b) ''Resources''
                        (jset (jget (template b) ''Resources'') name content),
         resourceIds := resourceIds b @ [name] \<rparr>"

text \<open>
  \<open>build\<close> writes the stage, the deployment and the output into the template and
  returns \<open>JSON.stringify(this.template)\<close>; the model returns the object that is
  serialised.
\<close>

definition apiStage :: "string \<Rightarrow> json" where
  "apiStage gw = JObj
     [(''Type'', JStr ''AWS::ApiGatewayV2::Stage''),
      (''Properties'', JObj
         [(''ApiId'', ref gw),
          (''AutoDeploy'', JBool True),
          (''StageName'', JStr ''prod'')])]"

definition apiDeployment :: "string \<Rightarrow> string list \<Rightarrow> json" where
  "apiDeployment gw ids = JObj
     [(''Type'', JStr ''AWS::ApiGatewayV2::Deployment''),
      (''DependsOn'', JArr (map JStr (ids @ [''ApiStage'']))),
      (''Properties'', JObj
         [(''ApiId'', ref gw),
          (''StageName'', JStr ''prod'')])]"

definition apiOutputs :: "string \<Rightarrow> json" where
  "apiOutputs gw = JObj
     [(''ApiUrl'', JObj
         [(''Description'', JStr ''The URL of the API Gateway''),
          (''Value'', fnJoin ''''
             [JStr ''https://'', ref gw, JStr ''.execute-api.'',
              ref ''AWS::Region'', JStr ''.amazonaws.com/prod/''])])]"

definition build :: "builder \<Rightarrow> json" where
  "build b =
     (let gw = apiGatewayResourceName b;
          t1 = jset (template b) ''Resources''
                 (jset (jget (template b) ''Resources'') ''ApiStage'' (apiStage gw));
          t2 = jset t1 ''Resources''
                 (jset (jget t1 ''Resources'') ''ApiDeployment''
                    (apiDeployment gw (resourceIds b)))
      in jset t2 ''Outputs'' (apiOutputs gw))"


section \<open>Project model and the remote services\<close>

text \<open>
  \<open>methodConfiguration\<close> is an entry of a class's \<open>methods\<close> array (\<open>name\<close>, \<open>type\<close>,
  \<open>cronString\<close>); \<open>classConfiguration\<close> an entry of \<open>projectConfiguration.classes\<close>
  (\<open>name\<close>, \<open>path\<close>, \<open>language\<close>, \<open>methods\<close>); \<open>cloudInput\<close> an entry of the
  \<open>input\<close> array handed to \<open>deploy\<close> (\<open>name\<close>, \<open>archivePath\<close>, \<open>filePath\<close>,
  \<open>methods\<close>). All of them are strings in the source, compared with \<open>===\<close>.
  \<open>cloudProvider\<close> of the project may be missing.
\<close>

record methodConfiguration =
  methodName :: string
  methodType :: string
  cronString :: "string option"

record classConfiguration =
  classConfigName :: string
  classPath :: string
  language :: string
  classMethods :: "methodConfiguration list"

record projectConfiguration =
  projectName :: string
  region :: string
  cloudProvider :: "string option"
  classes :: "classConfiguration list"

record cloudInput =
  inputName :: string
  archivePath :: string
  filePath :: string
  inputMethods :: "methodConfiguration list"

record methodOutput =
  outName :: string
  outType :: string
  outCronString :: "string option"
  methodUrl :: string

record classOutput =
  className :: string
  methodOutputs :: "methodOutput list"
  functionUrl :: string

text \<open>
  Every command sent to S3 or CloudFormation, with the parameters the source passes.
  The three waiters carry \<open>maxWaitTime\<close>; create and update carry the template that
  is serialised into \<open>TemplateBody\<close> and the \<open>Capabilities\<close> list.
\<close>

datatype call =
    HeadBucket string
  | CreateBucket string "string option"
  | PutBucketVersioning string string
  | PutObject string string string
  | HeadObject string string
  | DescribeStacks string
  | CreateStack string json "string list"
  | DeleteStack string
  | UpdateStack string json "string list"
  | WaitUntilStackCreateComplete nat string
  | WaitUntilStackDeleteComplete nat string
  | WaitUntilStackUpdateComplete nat string

record stackOutput =
  OutputValue :: "string option"

record stack =
  StackStatus :: "string option"
  Outputs :: "stackOutput list option"

text \<open>
  What the source reads from a command's output: \<open>VersionId\<close> of a head-object
  result and \<open>Stacks\<close> of a describe-stacks result; a property the service did not
  send reads as \<open>undefined\<close> (\<open>None\<close>).
\<close>

record reply =
  VersionId :: "string option"
  Stacks :: "stack list option"

text \<open>
  The world outside the process. \<open>respond\<close> answers a command given every command
  issued before it in this invocation (so the answers may depend on what was done
  earlier); \<open>Inl\<close> is a rejected promise. \<open>readFileSync\<close> is the local file system
  and \<open>credentials\<close> the access key id of \<open>AWS.config.credentials\<close>, if any.
\<close>

record env =
  respond :: "call list \<Rightarrow> call \<Rightarrow> error + reply"
  readFileSync :: "string \<Rightarrow> error + string"
  credentials :: "string option"

type_synonym 'a io = "(error + 'a) \<times> call list"

definition send :: "env \<Rightarrow> call \<Rightarrow> call list \<Rightarrow> reply io" where
  "send e c tr = (respond e tr c, tr @ [c])"

definition bind :: "'a io \<Rightarrow> ('a \<Rightarrow> call list \<Rightarrow> 'b io) \<Rightarrow> 'b io" where
  "bind m f = (case m of (Inl err, tr) \<Rightarrow> (Inl err, tr) | (Inr x, tr) \<Rightarrow> f x tr)"

section \<open>SelfHostedAwsAdapter\<close>

definition alphanumericString :: "string \<Rightarrow> string" where
  "alphanumericString input =
     filter (\<lambda>c. c \<in> set ''0123456789abcdefghijklmnopqrstuvwxyzABCDEFGHIJKLMNOPQRSTUVWXYZ'') input"

definition getFunctionUrl :: "string \<Rightarrow> string \<Rightarrow> string \<Rightarrow> string \<Rightarrow> string" where
  "getFunctionUrl baseUrl mType cName mName =
     (if mType = ''http'' then baseUrl @ ''/'' @ cName @ ''/'' @ mName
      else baseUrl @ ''/'' @ cName)"

definition getFunctionRuntime :: "string \<Rightarrow> error + string" where
  "getFunctionRuntime lang =
     (if lang = ''.js'' \<or> lang = ''.ts'' then Inr ''nodejs14.x''
      else if lang = ''.dart'' then Inr ''provided.al2''
      else Inl (Error ''Error'' (''Unsupported language: '' @ lang)))"

definition getLatestObjectVersion :: "env \<Rightarrow> string \<Rightarrow> string \<Rightarrow> call list \<Rightarrow> (string option) io" where
  "getLatestObjectVersion e bucket key tr =
     bind (send e (HeadObject bucket key) tr) (\<lambda>result tr'. (Inr (VersionId result), tr'))"

record probe =
  exists :: bool
  status :: "string option"

definition checkIfStackExists :: "env \<Rightarrow> string \<Rightarrow> call list \<Rightarrow> probe io" where
  "checkIfStackExists e stackName tr =
     (case send e (DescribeStacks stackName) tr of
        (Inr st, tr') \<Rightarrow>
          (case Stacks st of
             Some [] \<Rightarrow> (Inr \<lparr> exists = False, status = None \<rparr>, tr')
           | Some (s # rest) \<Rightarrow> (Inr \<lparr> exists = True, status = StackStatus s \<rparr>, tr')
           | None \<Rightarrow> (Inr \<lparr> exists = True, status = None \<rparr>, tr'))
      | (Inl err, tr') \<Rightarrow>
          (if message err = ''Stack with id '' @ stackName @ '' does not exist''
           then (Inr \<lparr> exists = False, status = None \<rparr>, tr')
           else (Inl err, tr')))"

definition uploadZipToS3 :: "env \<Rightarrow> string \<Rightarrow> string \<Rightarrow> string \<Rightarrow> call list \<Rightarrow> unit io" where
  "uploadZipToS3 e bucket key path tr =
     (case readFileSync e path of
        Inl err \<Rightarrow> (Inl err, tr)
      | Inr content \<Rightarrow>
          bind (send e (PutObject bucket key content) tr) (\<lambda>r tr'. (Inr (), tr')))"

definition updateStack :: "env \<Rightarrow> json \<Rightarrow> string \<Rightarrow> call list \<Rightarrow> unit io" where
  "updateStack e createStackTemplate stackName tr =
     bind (checkIfStackExists e stackName tr) (\<lambda>p tr0.
       if \<not> exists p then
         bind (send e (CreateStack stackName createStackTemplate [''CAPABILITY_IAM'']) tr0) (\<lambda>r1 tr1.
         bind (send e (WaitUntilStackCreateComplete 360 stackName) tr1) (\<lambda>r2 tr2.
           (Inr (), tr2)))
       else if exists p \<and> status p = Some ''ROLLBACK_COMPLETE'' then
         bind (send e (DeleteStack stackName) tr0) (\<lambda>r1 tr1.
         bind (send e (WaitUntilStackDeleteComplete 360 stackName) tr1) (\<lambda>r2 tr2.
         bind (send e (CreateStack stackName createStackTemplate [''CAPABILITY_IAM'']) tr2) (\<lambda>r3 tr3.
         bind (send e (WaitUntilStackCreateComplete 360 stackName) tr3) (\<lambda>r4 tr4.
           (Inr (), tr4)))))
       else
         bind (send e (UpdateStack stackName createStackTemplate [''CAPABILITY_IAM'']) tr0) (\<lambda>r1 tr1.
         bind (send e (WaitUntilStackUpdateComplete 360 stackName) tr1) (\<lambda>r2 tr2.
           (Inr (), tr2))))"

subsection \<open>The resources emitted for one class\<close>

definition invokePermission :: "string \<Rightarrow> string \<Rightarrow> json" where
  "invokePermission gw lambdaFunctionResourceName = JObj
     [(''Type'', JStr ''AWS::Lambda::Permission''),
      (''Properties'', JObj
         [(''Action'', JStr ''lambda:InvokeFunction''),
          (''FunctionName'', getAtt lambdaFunctionResourceName ''Arn''),
          (''Principal'', JStr ''apigateway.amazonaws.com''),
          (''SourceArn'', fnJoin ''''
             [JStr ''arn:aws:execute-api:'', ref ''AWS::Region'', JStr '':'',
              ref ''AWS::AccountId'', JStr '':'', ref gw, JStr ''/*''])])]"

definition route :: "string \<Rightarrow> string \<Rightarrow> string \<Rightarrow> json" where
  "route gw routeKey integrationResourceName = JObj
     [(''Type'', JStr ''AWS::ApiGatewayV2::Route''),
      (''Properties'', JObj
         [(''ApiId'', ref gw),
          (''RouteKey'', JStr routeKey),
          (''Target'', fnJoin ''/'' [JStr ''integrations'', ref integrationResourceName])])]"

definition integration :: "string \<Rightarrow> string \<Rightarrow> json" where
  "integration gw lambdaFunctionResourceName = JObj
     [(''Type'', JStr ''AWS::ApiGatewayV2::Integration''),
      (''Properties'', JObj
         [(''ApiId'', ref gw),
          (''IntegrationType'', JStr ''AWS_PROXY''),
          (''PayloadFormatVersion'', JStr ''2.0''),
          (''IntegrationUri'', fnJoin ''''
             [JStr ''arn:'', ref ''AWS::Partition'', JStr '':apigateway:'',
              ref ''AWS::Region'', JStr '':lambda:path/2015-03-31/functions/'',
              getAtt lambdaFunctionResourceName ''Arn'', JStr ''/invocations''])])]"

definition optStr :: "string option \<Rightarrow> json" where
  "optStr v = (case v of None \<Rightarrow> JUndefined | Some s \<Rightarrow> JStr s)"

definition lambdaFunction ::
  "string \<Rightarrow> string \<Rightarrow> string \<Rightarrow> string \<Rightarrow> string \<Rightarrow> string option \<Rightarrow> json" where
  "lambdaFunction lambdaFunctionResourceName runtime roleResourceName bucketName bucketKey version = JObj
     [(''Type'', JStr ''AWS::Lambda::Function''),
      (''Properties'', JObj
         [(''FunctionName'', JStr lambdaFunctionResourceName),
          (''Handler'', JStr ''index.handler''),
          (''Architectures'', JArr [JStr ''arm64'']),
          (''Runtime'', JStr runtime),
          (''Role'', getAtt roleResourceName ''Arn''),
          (''Code'', JObj
             [(''S3Bucket'', JStr bucketName),
              (''S3Key'', JStr bucketKey),
              (''S3ObjectVersion'', optStr version)]),
          (''MemorySize'', JNum 1024),
          (''Timeout'', JNum 10)])]"

definition executionRole :: json where
  "executionRole = JObj
     [(''Type'', JStr ''AWS::IAM::Role''),
      (''Properties'', JObj
         [(''AssumeRolePolicyDocument'', JObj
             [(''Version'', JStr ''2012-10-17''),
              (''Statement'', JArr
                 [JObj [(''Effect'', JStr ''Allow''),
                        (''Principal'', JObj [(''Service'', JArr [JStr ''lambda.amazonaws.com''])]),
                        (''Action'', JArr [JStr ''sts:AssumeRole''])]])]),
          (''Policies'', JArr
             [JObj [(''PolicyName'', JStr ''LambdaExecutionPolicy''),
                    (''PolicyDocument'', JObj
                       [(''Version'', JStr ''2012-10-17''),
                        (''Statement'', JArr
                           [JObj [(''Effect'', JStr ''Allow''),
                                  (''Action'', JArr [JStr ''logs:CreateLogGroup'',
                                                     JStr ''logs:CreateLogStream'',
                                                     JStr ''logs:PutLogEvents'']),
                                  (''Resource'', JStr ''arn:aws:logs:*:*:*'')]])])]])])]"

text \<open>
  The body of the loop \<open>for (const inputItem of input)\<close> in \<open>deploy\<close>, in the
  source's order: look the class up by path, upload the archive, add the invoke
  permission, one route per http method, the catch-all route and the integration,
  select the runtime (which throws for an unknown language, and reading \<open>language\<close>
  of a class that was not found is a TypeError), ask S3 for the object's version, add
  the function and its role.
\<close>

definition addMethodRoutes :: "builder \<Rightarrow> string \<Rightarrow> string \<Rightarrow> string \<Rightarrow> string \<Rightarrow> methodConfiguration list \<Rightarrow> builder" where
  "addMethodRoutes b gw routeResourceName integrationResourceName unitName ms =
     foldl (\<lambda>acc m. addResource acc (routeResourceName @ methodName m)
                       (route gw (''ANY /'' @ unitName @ ''/'' @ methodName m) integrationResourceName))
       b (filter (\<lambda>m. methodType m = ''http'') ms)"

definition processUnit ::
  "env \<Rightarrow> projectConfiguration \<Rightarrow> string \<Rightarrow> string \<Rightarrow> cloudInput \<Rightarrow> builder \<Rightarrow> call list \<Rightarrow> builder io" where
  "processUnit e pc gw bucketName inputItem b tr =
     (let classConfiguration = find (\<lambda>c. classPath c = filePath inputItem) (classes pc);
          bucketKey = ''genezio-'' @ projectName pc @ ''/lambda-'' @ inputName inputItem @ ''.zip'';
          lambdaFunctionResourceName = ''LambdaFunction'' @ alphanumericString (inputName inputItem);
          invokePermissionResourceName = ''LambdaInvokePermission'' @ alphanumericString (inputName inputItem);
          routeResourceName = ''Route'' @ alphanumericString (inputName inputItem);
          integrationResourceName = ''Integration'' @ alphanumericString (inputName inputItem);
          roleResourceName = ''Role'' @ alphanumericString (inputName inputItem)
      in bind (uploadZipToS3 e bucketName bucketKey (archivePath inputItem) tr) (\<lambda>u tr1.
           let b1 = addResource b invokePermissionResourceName
                      (invokePermission gw lambdaFunctionResourceName);
               b2 = addMethodRoutes b1 gw routeResourceName integrationResourceName (inputName inputItem)
                      (case classConfiguration of None \<Rightarrow> [] | Some c \<Rightarrow> classMethods c);
               b3 = addResource b2 routeResourceName
                      (route gw (''ANY /'' @ inputName inputItem) integrationResourceName);
               b4 = addResource b3 integrationResourceName
                      (integration gw lambdaFunctionResourceName)
           in (case classConfiguration of
                 None \<Rightarrow> (Inl (Error ''TypeError''
                             ''Cannot read properties of undefined (reading 'language')''), tr1)
               | Some c \<Rightarrow>
                   (case getFunctionRuntime (language c) of
                      Inl err \<Rightarrow> (Inl err, tr1)
                    | Inr runtime \<Rightarrow>
                        bind (getLatestObjectVersion e bucketName bucketKey tr1) (\<lambda>version tr2.
                          let b5 = addResource b4 lambdaFunctionResourceName
                                     (lambdaFunction lambdaFunctionResourceName runtime roleResourceName
                                        bucketName bucketKey version);
                              b6 = addResource b5 roleResourceName executionRole
                          in (Inr b6, tr2))))))"

fun processUnits ::
  "env \<Rightarrow> projectConfiguration \<Rightarrow> string \<Rightarrow> string \<Rightarrow> cloudInput list \<Rightarrow> builder \<Rightarrow> call list \<Rightarrow> builder io" where
  "processUnits e pc gw bucketName [] b tr = (Inr b, tr)"
| "processUnits e pc gw bucketName (inputItem # rest) b tr =
     bind (processUnit e pc gw bucketName inputItem b tr)
          (\<lambda>b' tr'. processUnits e pc gw bucketName rest b' tr')"

subsection \<open>deploy\<close>

text \<open>
  The part of \<open>deploy\<close> before the loop: probe the bucket (an error of the probe means
  that it does not exist), then require credentials, then create the bucket and enable
  versioning when the probe failed.
\<close>

definition ensureBucket :: "env \<Rightarrow> projectConfiguration \<Rightarrow> string \<Rightarrow> call list \<Rightarrow> unit io" where
  "ensureBucket e pc bucketName tr =
     (case send e (HeadBucket bucketName) tr of (r, tr1) \<Rightarrow>
        (let bucketExists = (case r of Inl err \<Rightarrow> False | Inr x \<Rightarrow> True)
         in if credentials e = None then (Inl (Error ''Error'' ''AWS credentials not found''), tr1)
            else if \<not> bucketExists then
              bind (send e (CreateBucket bucketName
                              (if region pc = ''us-east-1'' then None else Some (region pc))) tr1) (\<lambda>r1 tr2.
              bind (send e (PutBucketVersioning bucketName ''Enabled'') tr2) (\<lambda>r2 tr3.
                (Inr (), tr3)))
            else (Inr (), tr1)))"

text \<open>
  The part of \<open>deploy\<close> after \<open>#updateStack\<close>: describe the stack again, require one
  of the two complete statuses, read the first output and build the URLs. Reading
  \<open>[0]\<close> of a missing \<open>Outputs\<close>, or \<open>OutputValue\<close> of a missing first output, is a
  TypeError; a missing \<open>OutputValue\<close> is interpolated as the text \<open>undefined\<close>.
\<close>

definition classOutputs :: "string \<Rightarrow> cloudInput list \<Rightarrow> classOutput list" where
  "classOutputs apiGatewayUrl input =
     map (\<lambda>inputItem.
            \<lparr> className = inputName inputItem,
              methodOutputs = map (\<lambda>m.
                  \<lparr> outName = methodName m,
                    outType = methodType m,
                    outCronString = cronString m,
                    methodUrl = getFunctionUrl apiGatewayUrl (methodType m)
                                  (inputName inputItem) (methodName m) \<rparr>)
                (inputMethods inputItem),
              functionUrl = apiGatewayUrl @ ''/'' @ inputName inputItem \<rparr>)
         input"

definition stackIsComplete :: "stack list option \<Rightarrow> bool" where
  "stackIsComplete ss =
     (case ss of
        None \<Rightarrow> False
      | Some [] \<Rightarrow> False
      | Some (s # rest) \<Rightarrow> \<not> (StackStatus s \<noteq> Some ''UPDATE_COMPLETE''
                                \<and> StackStatus s \<noteq> Some ''CREATE_COMPLETE''))"

definition readOutputs :: "env \<Rightarrow> string \<Rightarrow> cloudInput list \<Rightarrow> call list \<Rightarrow> (classOutput list) io" where
  "readOutputs e stackName input tr =
     bind (send e (DescribeStacks stackName) tr) (\<lambda>stackDetails tr1.
       if \<not> stackIsComplete (Stacks stackDetails)
       then (Inl (Error ''Error'' ''Stack update failed''), tr1)
       else (case Stacks stackDetails of
               Some (s # rest) \<Rightarrow>
                 (case Outputs s of
                    None \<Rightarrow> (Inl (Error ''TypeError''
                                ''Cannot read properties of undefined (reading '0')''), tr1)
                  | Some [] \<Rightarrow> (Inl (Error ''TypeError''
                                ''Cannot read properties of undefined (reading 'OutputValue')''), tr1)
                  | Some (out # outs) \<Rightarrow>
                      (let apiGatewayUrl = (case OutputValue out of None \<Rightarrow> ''undefined'' | Some v \<Rightarrow> v)
                       in (Inr (classOutputs apiGatewayUrl input), tr1)))
             | _ \<Rightarrow> (Inl (Error ''Error'' ''Stack update failed''), tr1)))"

definition deploy :: "env \<Rightarrow> cloudInput list \<Rightarrow> projectConfiguration \<Rightarrow> (classOutput list) io" where
  "deploy e input pc =
     (let bucketName = ''bucket-'' @ region pc @ ''-'' @ projectName pc;
          stackName = ''genezio-'' @ projectName pc;
          apiGatewayResourceName = ''ApiGateway'' @ alphanumericString (projectName pc)
      in bind (ensureBucket e pc bucketName []) (\<lambda>u tr1.
         bind (processUnits e pc apiGatewayResourceName bucketName input
                 (newBuilder apiGatewayResourceName) tr1) (\<lambda>cloudFormationTemplate tr2.
         bind (updateStack e (build cloudFormationTemplate) stackName tr2) (\<lambda>u' tr3.
           readOutputs e stackName input tr3))))"

section \<open>Reading a template\<close>

text \<open>
  \<open>addAll\<close> is a run of \<open>addResource\<close> calls, one per (id, content) pair, in order.
  \<open>wellShaped\<close> holds of every builder made by the constructor and \<open>addResource\<close>:
  the template is an object whose \<open>Resources\<close> property is an object.
\<close>

definition addAll :: "builder \<Rightarrow> (string \<times> json) list \<Rightarrow> builder" where
  "addAll b rs = foldl (\<lambda>acc (n, c). addResource acc n c) b rs"

definition wellShaped :: "builder \<Rightarrow> bool" where
  "wellShaped b = (\<exists>kvs rs. template b = JObj kvs \<and> map_of kvs ''Resources'' = Some (JObj rs))"

definition dependsOn :: "json \<Rightarrow> string \<Rightarrow> json" where
  "dependsOn t resourceId = jget (jget (jget t ''Resources'') resourceId) ''DependsOn''"

text \<open>
  The (id, content) pairs that one pass of the loop of \<open>deploy\<close> adds for a class, in
  the order of the \<open>addResource\<close> calls, given the methods of the class found by path,
  the runtime selected for it and the version id that S3 answered.
\<close>

definition unitResources ::
  "string \<Rightarrow> string \<Rightarrow> string \<Rightarrow> cloudInput \<Rightarrow> methodConfiguration list \<Rightarrow> string \<Rightarrow> string option
     \<Rightarrow> (string \<times> json) list" where
  "unitResources gw bucketName bucketKey inputItem ms runtime version =
     (let s = alphanumericString (inputName inputItem)
      in [(''LambdaInvokePermission'' @ s, invokePermission gw (''LambdaFunction'' @ s))]
         @ map (\<lambda>m. (''Route'' @ s @ methodName m,
                       route gw (''ANY /'' @ inputName inputItem @ ''/'' @ methodName m) (''Integration'' @ s)))
             (filter (\<lambda>m. methodType m = ''http'') ms)
         @ [(''Route'' @ s, route gw (''ANY /'' @ inputName inputItem) (''Integration'' @ s)),
            (''Integration'' @ s, integration gw (''LambdaFunction'' @ s)),
            (''LambdaFunction'' @ s,
               lambdaFunction (''LambdaFunction'' @ s) runtime (''Role'' @ s) bucketName bucketKey version),
            (''Role'' @ s, executionRole)])"

definition resources :: "json \<Rightarrow> (string \<times> json) list" where
  "resources t = (case jget t ''Resources'' of JObj rs \<Rightarrow> rs | _ \<Rightarrow> [])"

text \<open>The route key and the target of every route resource of a template.\<close>

definition routesIn :: "(string \<times> json) list \<Rightarrow> (json \<times> json) list" where
  "routesIn rs =
     map (\<lambda>(k, c). (jget (jget c ''Properties'') ''RouteKey'', jget (jget c ''Properties'') ''Target''))
       (filter (\<lambda>(k, c). jget c ''Type'' = JStr ''AWS::ApiGatewayV2::Route'') rs)"

definition templateRoutes :: "json \<Rightarrow> (json \<times> json) list" where
  "templateRoutes t = routesIn (resources t)"

definition integrationTarget :: "string \<Rightarrow> json" where
  "integrationTarget unitName =
     fnJoin ''/'' [JStr ''integrations'', ref (''Integration'' @ alphanumericString unitName)]"

text \<open>The \<open>S3ObjectVersion\<close> of the code of a function resource of a template.\<close>

definition pinnedVersion :: "json \<Rightarrow> string \<Rightarrow> json" where
  "pinnedVersion t functionId =
     jget (jget (jget (jget (jget t ''Resources'') functionId) ''Properties'') ''Code'') ''S3ObjectVersion''"

fun isStackCall :: "call \<Rightarrow> bool" where
  "isStackCall (DescribeStacks n) = True"
| "isStackCall (CreateStack n t caps) = True"
| "isStackCall (DeleteStack n) = True"
| "isStackCall (UpdateStack n t caps) = True"
| "isStackCall (WaitUntilStackCreateComplete w n) = True"
| "isStackCall (WaitUntilStackDeleteComplete w n) = True"
| "isStackCall (WaitUntilStackUpdateComplete w n) = True"
| "isStackCall c = False"

text \<open>
  The same environment, except that a successful put-object answers with the version
  id \<open>v\<close>.
\<close>

definition withUploadVersion :: "string option \<Rightarrow> env \<Rightarrow> env" where
  "withUploadVersion v e =
     e \<lparr> respond := (\<lambda>tr c.
             case c of
               PutObject b k content \<Rightarrow>
                 (case respond e tr c of Inl err \<Rightarrow> Inl err | Inr r \<Rightarrow> Inr (r \<lparr> VersionId := v \<rparr>))
             | _ \<Rightarrow> respond e tr c) \<rparr>"

section \<open>The table of the convergence state machine\<close>

text \<open>
  The row of the specification's table for a probed state, as the commands it lists:
  absent, create and await; rollback complete, delete and await, then create and
  await; any other existing status, update and await.
\<close>

definition stateMachineRow :: "probe \<Rightarrow> string \<Rightarrow> json \<Rightarrow> call list" where
  "stateMachineRow p stackName t =
     (if \<not> exists p then
        [CreateStack stackName t [''CAPABILITY_IAM''], WaitUntilStackCreateComplete 360 stackName]
      else if status p = Some ''ROLLBACK_COMPLETE'' then
        [DeleteStack stackName, WaitUntilStackDeleteComplete 360 stackName,
         CreateStack stackName t [''CAPABILITY_IAM''], WaitUntilStackCreateComplete 360 stackName]
      else
        [UpdateStack stackName t [''CAPABILITY_IAM''], WaitUntilStackUpdateComplete 360 stackName])"

fun isDelete :: "call \<Rightarrow> bool" where
  "isDelete (DeleteStack n) = True"
| "isDelete c = False"

fun isCreate :: "call \<Rightarrow> bool" where
  "isCreate (CreateStack n t caps) = True"
| "isCreate c = False"

definition accepted :: "env \<Rightarrow> call \<Rightarrow> bool" where
  "accepted e c = (\<forall>tr. \<exists>r. respond e tr c = Inr r)"

definition stackNotFound :: "string \<Rightarrow> error \<Rightarrow> bool" where
  "stackNotFound stackName err = (message err = ''Stack with id '' @ stackName @ '' does not exist'')"

section \<open>A simulated account\<close>

text \<open>
  An environment to run the adapter in. The bucket exists once it was created; the
  version of an object is derived from the content last put under its key; the stack has
  the status \<open>init\<close> (\<open>None\<close>: there is no such stack) until it is created or updated,
  which leaves it in the status \<open>final\<close>, or deleted; it has one output, \<open>url\<close>.
\<close>

definition emptyReply :: reply where
  "emptyReply = \<lparr> VersionId = None, Stacks = None \<rparr>"

fun stackNow :: "string option \<Rightarrow> string \<Rightarrow> call list \<Rightarrow> string option" where
  "stackNow init final [] = init"
| "stackNow init final (c # cs) =
     stackNow (case c of CreateStack n t caps \<Rightarrow> Some final
                       | UpdateStack n t caps \<Rightarrow> (case init of None \<Rightarrow> None | Some st \<Rightarrow> Some final)
                       | DeleteStack n \<Rightarrow> None
                       | _ \<Rightarrow> init) final cs"

fun storedVersion :: "string \<Rightarrow> string \<Rightarrow> call list \<Rightarrow> string option" where
  "storedVersion bucket key [] = None"
| "storedVersion bucket key (c # cs) =
     (case storedVersion bucket key cs of
        Some v \<Rightarrow> Some v
      | None \<Rightarrow> (case c of
                   PutObject b k content \<Rightarrow>
                     (if b = bucket \<and> k = key then Some (''v-'' @ content) else None)
                 | _ \<Rightarrow> None))"

definition account :: "string option \<Rightarrow> string \<Rightarrow> string \<Rightarrow> env" where
  "account init final url =
     \<lparr> respond = (\<lambda>tr c.
         case c of
           HeadBucket b \<Rightarrow>
             (if list_ex (\<lambda>c'. case c' of CreateBucket b' loc \<Rightarrow> b' = b | _ \<Rightarrow> False) tr
              then Inr emptyReply
              else Inl (Error ''NotFound'' ''NotFound''))
         | HeadObject b k \<Rightarrow>
             (case storedVersion b k tr of
                None \<Rightarrow> Inl (Error ''NotFound'' ''NotFound'')
              | Some v \<Rightarrow> Inr \<lparr> VersionId = Some v, Stacks = None \<rparr>)
         | DescribeStacks n \<Rightarrow>
             (case stackNow init final tr of
                None \<Rightarrow> Inl (Error ''ValidationError'' (''Stack with id '' @ n @ '' does not exist''))
              | Some st \<Rightarrow>
                  Inr \<lparr> VersionId = None,
                        Stacks = Some [\<lparr> StackStatus = Some st,
                                         Outputs = Some [\<lparr> OutputValue = Some url \<rparr>] \<rparr>] \<rparr>)
         | _ \<Rightarrow> Inr emptyReply),
       readFileSync = (\<lambda>path. Inr (''zip:'' @ path)),
       credentials = Some ''AKIAEXAMPLE'' \<rparr>"

text \<open>An environment in which every command is rejected with the same error.\<close>

definition rejecting :: "error \<Rightarrow> env" where
  "rejecting err =
     \<lparr> respond = (\<lambda>tr c. Inl err),
       readFileSync = (\<lambda>path. Inr (''zip:'' @ path)),
       credentials = Some ''AKIAEXAMPLE'' \<rparr>"

text \<open>An environment in which every command is answered with the same output.\<close>

definition answering :: "reply \<Rightarrow> env" where
  "answering r =
     \<lparr> respond = (\<lambda>tr c. Inr r),
       readFileSync = (\<lambda>path. Inr (''zip:'' @ path)),
       credentials = Some ''AKIAEXAMPLE'' \<rparr>"

text \<open>Issuing a list of commands in order, stopping at the first one that is rejected.\<close>

fun sendAll :: "env \<Rightarrow> call list \<Rightarrow> call list \<Rightarrow> unit io" where
  "sendAll e [] tr = (Inr (), tr)"
| "sendAll e (c # cs) tr = bind (send e c tr) (\<lambda>r tr'. sendAll e cs tr')"

section \<open>The project of the end-to-end scenario\<close>

text \<open>
  Project \<open>shop\<close> in \<open>us-east-1\<close> with one class \<open>Orders\<close> whose methods are
  \<open>invoice\<close> (http) and \<open>list\<close> (rpc), parameterised by the text that names the
  class's language. The classes of this adapter carry the file extension as their
  language (\<open>.ts\<close>, \<open>.js\<close>, \<open>.dart\<close>).
\<close>

definition ordersMethods :: "methodConfiguration list" where
  "ordersMethods =
     [\<lparr> methodName = ''invoice'', methodType = ''http'', cronString = None \<rparr>,
      \<lparr> methodName = ''list'', methodType = ''rpc'', cronString = None \<rparr>]"

definition shopProject :: "string \<Rightarrow> projectConfiguration" where
  "shopProject lang =
     \<lparr> projectName = ''shop'', region = ''us-east-1'', cloudProvider = Some ''selfHostedAws'',
       classes = [\<lparr> classConfigName = ''Orders'', classPath = ''orders.ts'', language = lang,
                    classMethods = ordersMethods \<rparr>] \<rparr>"

definition ordersInput :: cloudInput where
  "ordersInput =
     \<lparr> inputName = ''Orders'', archivePath = ''/tmp/genezio-orders/genezioDeploy.zip'',
       filePath = ''orders.ts'', inputMethods = ordersMethods \<rparr>"

definition shopInput :: "cloudInput list" where
  "shopInput = [ordersInput]"

text \<open>
  What the adapter does for this project in a simulated account that has neither the
  bucket nor the stack: the commands up to the end of staging, and the builder after the
  loop.
\<close>

definition shopStaged :: "call list" where
  "shopStaged =
     [HeadBucket ''bucket-us-east-1-shop'',
      CreateBucket ''bucket-us-east-1-shop'' None,
      PutBucketVersioning ''bucket-us-east-1-shop'' ''Enabled'',
      PutObject ''bucket-us-east-1-shop'' ''genezio-shop/lambda-Orders.zip''
        ''zip:/tmp/genezio-orders/genezioDeploy.zip'',
      HeadObject ''bucket-us-east-1-shop'' ''genezio-shop/lambda-Orders.zip'']"

definition shopBuilder :: builder where
  "shopBuilder =
     addAll (newBuilder ''ApiGatewayshop'')
       (unitResources ''ApiGatewayshop'' ''bucket-us-east-1-shop'' ''genezio-shop/lambda-Orders.zip''
          ordersInput ordersMethods ''nodejs14.x'' (Some ''v-zip:/tmp/genezio-orders/genezioDeploy.zip''))"

definition shopResult :: "classOutput list" where
  "shopResult =
     [\<lparr> className = ''Orders'',
        methodOutputs =
          [\<lparr> outName = ''invoice'', outType = ''http'', outCronString = None,
             methodUrl = ''https://abc123.example/prod/Orders/invoice'' \<rparr>,
           \<lparr> outName = ''list'', outType = ''rpc'', outCronString = None,
             methodUrl = ''https://abc123.example/prod/Orders'' \<rparr>],
        functionUrl = ''https://abc123.example/prod/Orders'' \<rparr>]"

section \<open>Names derived from the project\<close>

text \<open>
  The names that \<open>deploy\<close> computes from the project configuration and, for the
  bucket key, from an input item.
\<close>

definition bucketNameOf :: "projectConfiguration \<Rightarrow> string" where
  "bucketNameOf pc = ''bucket-'' @ region pc @ ''-'' @ projectName pc"

definition stackNameOf :: "projectConfiguration \<Rightarrow> string" where
  "stackNameOf pc = ''genezio-'' @ projectName pc"

definition gatewayOf :: "projectConfiguration \<Rightarrow> string" where
  "gatewayOf pc = ''ApiGateway'' @ alphanumericString (projectName pc)"

definition bucketKeyOf :: "projectConfiguration \<Rightarrow> cloudInput \<Rightarrow> string" where
  "bucketKeyOf pc inputItem = ''genezio-'' @ projectName pc @ ''/lambda-'' @ inputName inputItem @ ''.zip''"

definition functionIdOf :: "cloudInput \<Rightarrow> string" where
  "functionIdOf inputItem = ''LambdaFunction'' @ alphanumericString (inputName inputItem)"


definition completeStack :: "reply \<Rightarrow> bool" where
  "completeStack d =
     (case Stacks d of
        Some (s # rest) \<Rightarrow> StackStatus s = Some ''CREATE_COMPLETE'' \<or> StackStatus s = Some ''UPDATE_COMPLETE''
      | _ \<Rightarrow> False)"

section \<open>The routes the specification asks for\<close>

text \<open>
  For a unit and its methods: one route \<open>ANY /<unit>/<method>\<close> per method whose
  trigger kind is http, and the catch-all route \<open>ANY /<unit>\<close>, all bound to the
  unit's integration. \<open>methodsOf\<close> are the methods of the class that \<open>deploy\<close>
  finds for an input item by its path.
\<close>

definition expectedRoutes :: "string \<Rightarrow> methodConfiguration list \<Rightarrow> (json \<times> json) list" where
  "expectedRoutes unitName ms =
     map (\<lambda>m. (JStr (''ANY /'' @ unitName @ ''/'' @ methodName m), integrationTarget unitName))
       (filter (\<lambda>m. methodType m = ''http'') ms)
     @ [(JStr (''ANY /'' @ unitName), integrationTarget unitName)]"

definition methodsOf :: "projectConfiguration \<Rightarrow> cloudInput \<Rightarrow> methodConfiguration list" where
  "methodsOf pc inputItem =
     (case find (\<lambda>c. classPath c = filePath inputItem) (classes pc) of
        None \<Rightarrow> []
      | Some c \<Rightarrow> classMethods c)"

section \<open>deployClasses\<close>

text \<open>
  \<open>deployClasses\<close> (commands/deploy.ts) is the caller of the adapter. It bundles every
  class of the project and hands the results to \<open>cloudAdapter.deploy\<close>. What it calls
  in other modules is taken as given, in the record \<open>cli\<close>:
  \<^item> \<open>GENEZIO_NO_CLASSES_FOUND\<close>, the message constant of that name;
  \<^item> \<open>sdkGeneratorApiHandler\<close>, the error with which the SDK generator rejects, if it
    does (its response is only handed on to the bundlers and the SDK writer);
  \<^item> \<open>fileExists\<close>, the local file system;
  \<^item> \<open>bundleAndZip\<close>, everything between the choice of the bundler and the returned object
    (the look-up of the class's program, \<open>bundler.bundle\<close>, the temporary folder, the
    zip archive): the archive path, or the error thrown on the way;
  \<^item> \<open>firstRejection\<close>, which of several rejected promises \<open>Promise.all\<close> reports
    (the one that settles first);
  \<^item> \<open>genezioDeploy\<close>, the \<open>deploy\<close> of the managed adapter;
  \<^item> \<open>writeSdk\<close>, the error thrown by \<open>reportSuccess\<close>, \<open>replaceUrlsInSdk\<close> or
    \<open>writeSdkToDisk\<close>, if any.
  The \<open>ProjectConfiguration\<close> built from the configuration is the argument \<open>pc\<close>;
  of the YAML configuration only the number of classes is read.
\<close>

datatype bundler =
    NodeTsBundler
  | NodeTsBinaryDependenciesBundler
  | NodeJsBundler
  | NodeJsBinaryDependenciesBundler
  | DartBundler
  | BundlerComposer "bundler list"



record cli =
  GENEZIO_NO_CLASSES_FOUND :: string
  sdkGeneratorApiHandler :: "error option"
  fileExists :: "string \<Rightarrow> bool"
  bundleAndZip :: "bundler \<Rightarrow> classConfiguration \<Rightarrow> error + string"
  firstRejection :: "error list \<Rightarrow> error"
  genezioDeploy :: "cloudInput list \<Rightarrow> projectConfiguration \<Rightarrow> (classOutput list) io"
  writeSdk :: "classOutput list \<Rightarrow> error option"

text \<open>The \<open>switch\<close> on \<open>element.language\<close> that picks the bundler.\<close>

definition selectBundler :: "string \<Rightarrow> error + bundler" where
  "selectBundler lang =
     (if lang = ''.ts'' then Inr (BundlerComposer [NodeTsBundler, NodeTsBinaryDependenciesBundler])
      else if lang = ''.js'' then Inr (BundlerComposer [NodeJsBundler, NodeJsBinaryDependenciesBundler])
      else if lang = ''.dart'' then Inr DartBundler
      else Inl (Error ''Error'' (''Unsupported '' @ lang)))"

text \<open>
  The asynchronous function mapped over \<open>projectConfiguration.classes\<close>: the file must
  exist, the language must have a bundler, and the bundle is archived.
\<close>

definition bundleClass :: "cli \<Rightarrow> classConfiguration \<Rightarrow> error + cloudInput" where
  "bundleClass c element =
     (if \<not> fileExists c (classPath element)
      then Inl (Error ''Error'' (''`'' @ classPath element @ ''` file does not exist at the indicated path.''))
      else (case selectBundler (language element) of
              Inl err \<Rightarrow> Inl err
            | Inr bundler \<Rightarrow>
                (case bundleAndZip c bundler element of
                   Inl err \<Rightarrow> Inl err
                 | Inr archive \<Rightarrow>
                     Inr \<lparr> inputName = classConfigName element, archivePath = archive,
                           filePath = classPath element, inputMethods = classMethods element \<rparr>)))"

text \<open>
  \<open>Promise.all\<close>: the results in order when every promise is fulfilled, otherwise
  the error of one of the rejected promises.
\<close>

definition rejections :: "(error + 'a) list \<Rightarrow> error list" where
  "rejections rs = concat (map (\<lambda>r. case r of Inl err \<Rightarrow> [err] | Inr x \<Rightarrow> []) rs)"

definition fulfilments :: "(error + 'a) list \<Rightarrow> 'a list" where
  "fulfilments rs = concat (map (\<lambda>r. case r of Inl err \<Rightarrow> [] | Inr x \<Rightarrow> [x]) rs)"

definition promiseAll :: "cli \<Rightarrow> (error + 'a) list \<Rightarrow> error + 'a list" where
  "promiseAll c rs =
     (if rejections rs = [] then Inr (fulfilments rs)
      else Inl (if firstRejection c (rejections rs) \<in> set (rejections rs)
                then firstRejection c (rejections rs)
                else hd (rejections rs)))"



text \<open>A workstation on which every file exists and every bundle succeeds.\<close>

definition workstation :: cli where
  "workstation =
     \<lparr> GENEZIO_NO_CLASSES_FOUND = ''No classes found'',
       sdkGeneratorApiHandler = None,
       fileExists = (\<lambda>path. True),
       bundleAndZip = (\<lambda>b element. Inr (''/tmp/genezio-'' @ classPath element @ ''/genezioDeploy.zip'')),
       firstRejection = hd,
       genezioDeploy = (\<lambda>input pc. (Inr [], [])),
       writeSdk = (\<lambda>result. None) \<rparr>"

section \<open>Two projects whose resource ids collide\<close>

text \<open>
  Both projects are \<open>shop\<close> in \<open>us-east-1\<close> with two TypeScript classes in files of
  their own. In the first, class \<open>A\<close> has the http method \<open>B\<close> and class \<open>AB\<close> has
  no method: the id \<open>RouteAB\<close> is both the dedicated route of \<open>A.B\<close> and the
  catch-all route of \<open>AB\<close>. In the second, the classes are \<open>My_Class\<close> and
  \<open>MyClass\<close>, whose names give the same ids once the underscore is stripped. The
  inputs are what \<open>deployClasses\<close> hands to the adapter on the workstation; the
  builders are what the loop of the adapter has added.
\<close>

definition overlapProject :: projectConfiguration where
  "overlapProject =
     \<lparr> projectName = ''shop'', region = ''us-east-1'', cloudProvider = Some ''selfHostedAws'',
       classes =
         [\<lparr> classConfigName = ''A'', classPath = ''a.ts'', language = ''.ts'',
             classMethods = [\<lparr> methodName = ''B'', methodType = ''http'', cronString = None \<rparr>] \<rparr>,
          \<lparr> classConfigName = ''AB'', classPath = ''ab.ts'', language = ''.ts'',
             classMethods = [] \<rparr>] \<rparr>"

definition unitA :: cloudInput where
  "unitA =
     \<lparr> inputName = ''A'', archivePath = ''/tmp/genezio-a.ts/genezioDeploy.zip'', filePath = ''a.ts'',
       inputMethods = [\<lparr> methodName = ''B'', methodType = ''http'', cronString = None \<rparr>] \<rparr>"

definition unitAB :: cloudInput where
  "unitAB =
     \<lparr> inputName = ''AB'', archivePath = ''/tmp/genezio-ab.ts/genezioDeploy.zip'', filePath = ''ab.ts'',
       inputMethods = [] \<rparr>"

definition overlapBuilder :: builder where
  "overlapBuilder =
     addAll (newBuilder ''ApiGatewayshop'')
       (unitResources ''ApiGatewayshop'' ''bucket-us-east-1-shop'' ''genezio-shop/lambda-A.zip''
          unitA (inputMethods unitA) ''nodejs14.x'' (Some ''v-zip:/tmp/genezio-a.ts/genezioDeploy.zip'')
        @ unitResources ''ApiGatewayshop'' ''bucket-us-east-1-shop'' ''genezio-shop/lambda-AB.zip''
          unitAB [] ''nodejs14.x'' (Some ''v-zip:/tmp/genezio-ab.ts/genezioDeploy.zip''))"

definition twinProject :: projectConfiguration where
  "twinProject =
     \<lparr> projectName = ''shop'', region = ''us-east-1'', cloudProvider = Some ''selfHostedAws'',
       classes =
         [\<lparr> classConfigName = ''My_Class'', classPath = ''my_class.ts'', language = ''.ts'',
             classMethods = [] \<rparr>,
          \<lparr> classConfigName = ''MyClass'', classPath = ''myclass.ts'', language = ''.ts'',
             classMethods = [] \<rparr>] \<rparr>"

definition unitMy_Class :: cloudInput where
  "unitMy_Class =
     \<lparr> inputName = ''My_Class'', archivePath = ''/tmp/genezio-my_class.ts/genezioDeploy.zip'',
       filePath = ''my_class.ts'', inputMethods = [] \<rparr>"

definition unitMyClass :: cloudInput where
  "unitMyClass =
     \<lparr> inputName = ''MyClass'', archivePath = ''/tmp/genezio-myclass.ts/genezioDeploy.zip'',
       filePath = ''myclass.ts'', inputMethods = [] \<rparr>"

definition twinBuilder :: builder where
  "twinBuilder =
     addAll (newBuilder ''ApiGatewayshop'')
       (unitResources ''ApiGatewayshop'' ''bucket-us-east-1-shop'' ''genezio-shop/lambda-My_Class.zip''
          unitMy_Class [] ''nodejs14.x'' (Some ''v-zip:/tmp/genezio-my_class.ts/genezioDeploy.zip'')
        @ unitResources ''ApiGatewayshop'' ''bucket-us-east-1-shop'' ''genezio-shop/lambda-MyClass.zip''
          unitMyClass [] ''nodejs14.x'' (Some ''v-zip:/tmp/genezio-myclass.ts/genezioDeploy.zip''))"

section \<open>The builder\<close>

lemma resourceIds_new [simp]: "resourceIds (newBuilder gw) = []"
  by (simp add: newBuilder_def)

lemma gateway_new [simp]: "apiGatewayResourceName (newBuilder gw) = gw"
  by (simp add: newBuilder_def)

lemma wellShaped_new [simp]: "wellShaped (newBuilder gw)"
  by (simp add: wellShaped_def newBuilder_def)

lemma wellShaped_add [simp]: "wellShaped b \<Longrightarrow> wellShaped (addResource b n c)"
  by (auto simp: wellShaped_def addResource_def update_conv')

lemma resourceIds_add [simp]: "resourceIds (addResource b n c) = resourceIds b @ [n]"
  by (simp add: addResource_def)

lemma gateway_add [simp]: "apiGatewayResourceName (addResource b n c) = apiGatewayResourceName b"
  by (simp add: addResource_def)

lemma addAll_Nil [simp]: "addAll b [] = b"
  by (simp add: addAll_def)

lemma addAll_snoc [simp]: "addAll b (rs @ [x]) = addResource (addAll b rs) (fst x) (snd x)"
  by (simp add: addAll_def split: prod.split)

lemma addAll_Cons: "addAll b (x # rs) = addAll (addResource b (fst x) (snd x)) rs"
  by (simp add: addAll_def split: prod.split)

lemma addAll_append: "addAll b (rs @ rs') = addAll (addAll b rs) rs'"
  by (simp add: addAll_def)

lemma wellShaped_addAll [simp]: "wellShaped b \<Longrightarrow> wellShaped (addAll b rs)"
  by (induction rs rule: rev_induct) simp_all

lemma resourceIds_addAll [simp]: "resourceIds (addAll b rs) = resourceIds b @ map fst rs"
  by (induction rs rule: rev_induct) simp_all

lemma gateway_addAll [simp]: "apiGatewayResourceName (addAll b rs) = apiGatewayResourceName b"
  by (induction rs rule: rev_induct) simp_all

lemma build_deployment:
  "wellShaped b \<Longrightarrow>
   jget (jget (build b) ''Resources'') ''ApiDeployment''
     = apiDeployment (apiGatewayResourceName b) (resourceIds b)"
  by (auto simp: wellShaped_def build_def Let_def update_conv')

text \<open>
  C8. Whatever resources were added to a fresh builder, in whatever order, the
  deployment resource of the built template depends on the ids of all of them, in the
  order they were added, followed by the stage \<open>ApiStage\<close>.
\<close>

theorem build_deployment_dependsOn:
  "dependsOn (build (addAll (newBuilder gw) rs)) ''ApiDeployment''
     = JArr (map JStr (map fst rs @ [''ApiStage'']))"
  by (simp add: dependsOn_def build_deployment apiDeployment_def)

section \<open>Sequencing\<close>

lemma bind_Inl [simp]: "bind (Inl err, tr) f = (Inl err, tr)"
  by (simp add: bind_def)

lemma bind_Inr [simp]: "bind (Inr x, tr) f = f x tr"
  by (simp add: bind_def)

lemma bind_cases:
  "bind m f = (res, tr') \<Longrightarrow>
     (\<exists>err. m = (Inl err, tr') \<and> res = Inl err) \<or> (\<exists>x tr. m = (Inr x, tr) \<and> f x tr = (res, tr'))"
  by (auto simp: bind_def split: prod.splits sum.splits)

lemma bind_Inr_cases:
  "bind m f = (Inr y, tr') \<Longrightarrow> \<exists>x tr. m = (Inr x, tr) \<and> f x tr = (Inr y, tr')"
  by (auto simp: bind_def split: prod.splits sum.splits)

section \<open>The stack probe\<close>

lemma snd_checkIfStackExists: "snd (checkIfStackExists e n tr) = tr @ [DescribeStacks n]"
  by (simp add: checkIfStackExists_def send_def split: sum.splits option.splits list.splits)

text \<open>
  C6. When the describe call of the probe is rejected with the stack-not-found
  message, or answers with an empty list of stacks, the probe returns the absent state
  (\<open>exists = false\<close>) and no error; when it is rejected with any other error, the probe
  fails with that same error; and a rejected describe call from which the probe still
  returns a state was the stack-not-found rejection and the state is the absent one.
\<close>

theorem probe_recovers_only_not_found:
  "(respond e tr (DescribeStacks n) = Inl err \<and> stackNotFound n err
      \<longrightarrow> fst (checkIfStackExists e n tr) = Inr \<lparr> exists = False, status = None \<rparr>)
   \<and> (respond e tr (DescribeStacks n) = Inr r \<and> Stacks r = Some []
      \<longrightarrow> fst (checkIfStackExists e n tr) = Inr \<lparr> exists = False, status = None \<rparr>)
   \<and> (respond e tr (DescribeStacks n) = Inl err \<and> \<not> stackNotFound n err
      \<longrightarrow> fst (checkIfStackExists e n tr) = Inl err)
   \<and> (respond e tr (DescribeStacks n) = Inl err \<and> fst (checkIfStackExists e n tr) = Inr p
      \<longrightarrow> stackNotFound n err \<and> p = \<lparr> exists = False, status = None \<rparr>)"
  by (auto simp: checkIfStackExists_def send_def stackNotFound_def split: if_splits)

theorem probe_recovers_only_not_found_witness:
  "fst (checkIfStackExists (account None ''CREATE_COMPLETE'' ''u'') ''genezio-shop'' [])
     = Inr \<lparr> exists = False, status = None \<rparr>
   \<and> fst (checkIfStackExists (answering \<lparr> VersionId = None, Stacks = Some [] \<rparr>) ''genezio-shop'' [])
     = Inr \<lparr> exists = False, status = None \<rparr>
   \<and> fst (checkIfStackExists (rejecting (Error ''AccessDenied'' ''not authorized'')) ''genezio-shop'' [])
     = Inl (Error ''AccessDenied'' ''not authorized'')"
proof -
  let ?absent = "\<lparr> exists = False, status = None \<rparr>"
  let ?nf = "Error ''ValidationError'' ''Stack with id genezio-shop does not exist''"
  let ?denied = "Error ''AccessDenied'' ''not authorized''"
  let ?none = "\<lparr> VersionId = None, Stacks = Some [] \<rparr>"
  have a: "respond (account None ''CREATE_COMPLETE'' ''u'') [] (DescribeStacks ''genezio-shop'') = Inl ?nf"
    by (simp add: account_def)
  have b: "stackNotFound ''genezio-shop'' ?nf"
    by (simp add: stackNotFound_def)
  have c: "respond (rejecting ?denied) [] (DescribeStacks ''genezio-shop'') = Inl ?denied"
    by (simp add: rejecting_def)
  have d: "\<not> stackNotFound ''genezio-shop'' ?denied"
    by (simp add: stackNotFound_def)
  have f: "respond (answering ?none) [] (DescribeStacks ''genezio-shop'') = Inr ?none"
    by (simp add: answering_def)
  have g: "Stacks ?none = Some []"
    by simp
  have "fst (checkIfStackExists (account None ''CREATE_COMPLETE'' ''u'') ''genezio-shop'' []) = Inr ?absent"
    using probe_recovers_only_not_found
            [of "account None ''CREATE_COMPLETE'' ''u''" "[]" "''genezio-shop''" ?nf ?none ?absent] a b
    by blast
  moreover
  have "fst (checkIfStackExists (answering ?none) ''genezio-shop'' []) = Inr ?absent"
    using probe_recovers_only_not_found
            [of "answering ?none" "[]" "''genezio-shop''" ?nf ?none ?absent] f g
    by blast
  moreover
  have "fst (checkIfStackExists (rejecting ?denied) ''genezio-shop'' []) = Inl ?denied"
    using probe_recovers_only_not_found
            [of "rejecting ?denied" "[]" "''genezio-shop''" ?denied ?none ?absent] c d
    by blast
  ultimately show ?thesis by blast
qed

section \<open>Convergence\<close>

lemma sendAll_Nil_fun: "sendAll e [] = (\<lambda>tr. (Inr (), tr))"
  by (rule ext) simp

lemma sendAll_Cons_fun: "sendAll e (c # cs) = (\<lambda>tr. bind (send e c tr) (\<lambda>r. sendAll e cs))"
  by (rule ext) simp

lemma updateStack_row:
  "updateStack e t n tr =
     bind (checkIfStackExists e n tr) (\<lambda>p tr0. sendAll e (stateMachineRow p n t) tr0)"
proof -
  have "(\<lambda>p tr0. sendAll e (stateMachineRow p n t) tr0) =
        (\<lambda>p tr0.
       if \<not> exists p then
         bind (send e (CreateStack n t [''CAPABILITY_IAM'']) tr0) (\<lambda>r1 tr1.
         bind (send e (WaitUntilStackCreateComplete 360 n) tr1) (\<lambda>r2 tr2.
           (Inr (), tr2)))
       else if exists p \<and> status p = Some ''ROLLBACK_COMPLETE'' then
         bind (send e (DeleteStack n) tr0) (\<lambda>r1 tr1.
         bind (send e (WaitUntilStackDeleteComplete 360 n) tr1) (\<lambda>r2 tr2.
         bind (send e (CreateStack n t [''CAPABILITY_IAM'']) tr2) (\<lambda>r3 tr3.
         bind (send e (WaitUntilStackCreateComplete 360 n) tr3) (\<lambda>r4 tr4.
           (Inr (), tr4)))))
       else
         bind (send e (UpdateStack n t [''CAPABILITY_IAM'']) tr0) (\<lambda>r1 tr1.
         bind (send e (WaitUntilStackUpdateComplete 360 n) tr1) (\<lambda>r2 tr2.
           (Inr (), tr2))))"
    by (intro ext) (simp add: stateMachineRow_def sendAll_Nil_fun sendAll_Cons_fun)
  then show ?thesis
    by (simp add: updateStack_def)
qed

lemma sendAll_issued:
  "\<exists>issued. snd (sendAll e cs tr) = tr @ issued \<and> prefix issued cs
      \<and> (cs \<noteq> [] \<longrightarrow> issued \<noteq> [])
      \<and> (fst (sendAll e cs tr) = Inr () \<longrightarrow> issued = cs)"
proof (induction cs arbitrary: tr)
  case Nil
  then show ?case by simp
next
  case (Cons c cs)
  show ?case
  proof (cases "respond e tr c")
    case (Inl err)
    then have "sendAll e (c # cs) tr = (Inl err, tr @ [c])"
      by (simp add: send_def)
    then show ?thesis by simp
  next
    case (Inr r)
    then have eq: "sendAll e (c # cs) tr = sendAll e cs (tr @ [c])"
      by (simp add: send_def)
    from Cons.IH[of "tr @ [c]"] obtain issued where
      "snd (sendAll e cs (tr @ [c])) = (tr @ [c]) @ issued" "prefix issued cs"
      "fst (sendAll e cs (tr @ [c])) = Inr () \<longrightarrow> issued = cs"
      by blast
    then show ?thesis
      unfolding eq by (intro exI[of _ "c # issued"]) simp
  qed
qed

lemma sendAll_accepted:
  "\<forall>c \<in> set cs. accepted e c \<Longrightarrow> sendAll e cs tr = (Inr (), tr @ cs)"
proof (induction cs arbitrary: tr)
  case Nil
  then show ?case by simp
next
  case (Cons c cs)
  then have "accepted e c" by simp
  then obtain r where "respond e tr c = Inr r"
    unfolding accepted_def by blast
  with Cons show ?case
    by (simp add: send_def)
qed

lemma row_nonempty: "stateMachineRow p n t \<noteq> []"
  by (simp add: stateMachineRow_def)

lemma row_update_only:
  "exists p \<Longrightarrow> status p \<noteq> Some ''ROLLBACK_COMPLETE'' \<Longrightarrow> prefix issued (stateMachineRow p n t) \<Longrightarrow>
     \<not> list_ex isDelete issued \<and> \<not> list_ex isCreate issued"
  by (auto simp: stateMachineRow_def prefix_Cons list_ex_iff)

text \<open>
  C1. After a probe that returned a state, one call of \<open>#updateStack\<close> issues, after
  the probe's describe command, the commands of the table row of that state and no
  others: they are a non-empty initial part of the row, in the row's order (the run stops
  at the first rejected command); they are the whole row whenever the call returns, and
  the call returns with the whole row issued when every command of the row is
  accepted. For an absent stack the row is one create and the wait for its completion;
  for \<open>ROLLBACK_COMPLETE\<close> one delete, the wait for it, one create and the wait for it;
  for every other existing status one update and the wait for it, and then no delete
  and no create is among the issued commands.
\<close>

theorem converge_issues_state_machine_row:
  assumes "checkIfStackExists e stackName tr = (Inr p, tr0)"
  shows "\<exists>issued. snd (updateStack e t stackName tr) = tr0 @ issued
      \<and> issued \<noteq> [] \<and> prefix issued (stateMachineRow p stackName t)
      \<and> (fst (updateStack e t stackName tr) = Inr () \<longrightarrow> issued = stateMachineRow p stackName t)
      \<and> ((\<forall>c \<in> set (stateMachineRow p stackName t). accepted e c)
            \<longrightarrow> updateStack e t stackName tr = (Inr (), tr0 @ stateMachineRow p stackName t))
      \<and> (exists p \<and> status p \<noteq> Some ''ROLLBACK_COMPLETE''
            \<longrightarrow> \<not> list_ex isDelete issued \<and> \<not> list_ex isCreate issued)"
proof -
  have run: "updateStack e t stackName tr = sendAll e (stateMachineRow p stackName t) tr0"
    using assms by (simp add: updateStack_row)
  from sendAll_issued[of e "stateMachineRow p stackName t" tr0] obtain issued where
    i: "snd (sendAll e (stateMachineRow p stackName t) tr0) = tr0 @ issued"
       "prefix issued (stateMachineRow p stackName t)"
       "issued \<noteq> []"
       "fst (sendAll e (stateMachineRow p stackName t) tr0) = Inr () \<longrightarrow> issued = stateMachineRow p stackName t"
    using row_nonempty by blast
  show ?thesis
    unfolding run using i sendAll_accepted row_update_only by (intro exI[of _ issued]) blast
qed


theorem converge_issues_state_machine_row_witness:
  "updateStack (account (Some ''ROLLBACK_COMPLETE'') ''CREATE_COMPLETE'' ''u'')
       (build (newBuilder ''ApiGatewayshop'')) ''genezio-shop'' []
     = (Inr (), [DescribeStacks ''genezio-shop'',
                 DeleteStack ''genezio-shop'',
                 WaitUntilStackDeleteComplete 360 ''genezio-shop'',
                 CreateStack ''genezio-shop'' (build (newBuilder ''ApiGatewayshop'')) [''CAPABILITY_IAM''],
                 WaitUntilStackCreateComplete 360 ''genezio-shop''])
   \<and> updateStack (account (Some ''UPDATE_COMPLETE'') ''UPDATE_COMPLETE'' ''u'')
       (build (newBuilder ''ApiGatewayshop'')) ''genezio-shop'' []
     = (Inr (), [DescribeStacks ''genezio-shop'',
                 UpdateStack ''genezio-shop'' (build (newBuilder ''ApiGatewayshop'')) [''CAPABILITY_IAM''],
                 WaitUntilStackUpdateComplete 360 ''genezio-shop''])"
proof -
  let ?t = "build (newBuilder ''ApiGatewayshop'')"
  let ?broken = "account (Some ''ROLLBACK_COMPLETE'') ''CREATE_COMPLETE'' ''u''"
  let ?healthy = "account (Some ''UPDATE_COMPLETE'') ''UPDATE_COMPLETE'' ''u''"
  let ?p1 = "\<lparr> exists = True, status = Some ''ROLLBACK_COMPLETE'' \<rparr>"
  let ?p2 = "\<lparr> exists = True, status = Some ''UPDATE_COMPLETE'' \<rparr>"
  have probe1: "checkIfStackExists ?broken ''genezio-shop'' [] = (Inr ?p1, [DescribeStacks ''genezio-shop''])"
    by (simp add: checkIfStackExists_def send_def account_def)
  have probe2: "checkIfStackExists ?healthy ''genezio-shop'' [] = (Inr ?p2, [DescribeStacks ''genezio-shop''])"
    by (simp add: checkIfStackExists_def send_def account_def)
  have acc1: "\<forall>c \<in> set (stateMachineRow ?p1 ''genezio-shop'' ?t). accepted ?broken c"
    by (simp add: stateMachineRow_def accepted_def account_def)
  have acc2: "\<forall>c \<in> set (stateMachineRow ?p2 ''genezio-shop'' ?t). accepted ?healthy c"
    by (simp add: stateMachineRow_def accepted_def account_def)
  have "updateStack ?broken ?t ''genezio-shop'' []
          = (Inr (), [DescribeStacks ''genezio-shop''] @ stateMachineRow ?p1 ''genezio-shop'' ?t)"
    using converge_issues_state_machine_row[OF probe1, of ?t] acc1 by blast
  moreover
  have "updateStack ?healthy ?t ''genezio-shop'' []
          = (Inr (), [DescribeStacks ''genezio-shop''] @ stateMachineRow ?p2 ''genezio-shop'' ?t)"
    using converge_issues_state_machine_row[OF probe2, of ?t] acc2 by blast
  ultimately show ?thesis
    by (simp add: stateMachineRow_def)
qed

section \<open>One pass of the loop\<close>

lemma addMethodRoutes_addAll:
  "addMethodRoutes b gw rn inn u ms =
     addAll b (map (\<lambda>m. (rn @ methodName m, route gw (''ANY /'' @ u @ ''/'' @ methodName m) inn))
                 (filter (\<lambda>m. methodType m = ''http'') ms))"
  by (simp add: addMethodRoutes_def addAll_def foldl_map)

lemma uploadZipToS3_Inr:
  "uploadZipToS3 e bucket key path tr = (Inr u, tr') \<Longrightarrow>
     \<exists>content r. readFileSync e path = Inr content
        \<and> respond e tr (PutObject bucket key content) = Inr r
        \<and> tr' = tr @ [PutObject bucket key content]"
  by (auto simp: uploadZipToS3_def send_def bind_def split: sum.splits)

lemma getLatestObjectVersion_Inr:
  "getLatestObjectVersion e bucket key tr = (Inr v, tr') \<Longrightarrow>
     \<exists>r. respond e tr (HeadObject bucket key) = Inr r \<and> v = VersionId r
        \<and> tr' = tr @ [HeadObject bucket key]"
  by (auto simp: getLatestObjectVersion_def send_def bind_def split: sum.splits)

lemma processUnit_Inr:
  assumes "processUnit e pc gw bucket item b tr = (Inr b', tr')"
  shows "\<exists>c runtime content r0 r.
           find (\<lambda>c. classPath c = filePath item) (classes pc) = Some c
         \<and> getFunctionRuntime (language c) = Inr runtime
         \<and> readFileSync e (archivePath item) = Inr content
         \<and> respond e tr (PutObject bucket (''genezio-'' @ projectName pc @ ''/lambda-'' @ inputName item @ ''.zip'') content) = Inr r0
         \<and> respond e (tr @ [PutObject bucket (''genezio-'' @ projectName pc @ ''/lambda-'' @ inputName item @ ''.zip'') content])
              (HeadObject bucket (''genezio-'' @ projectName pc @ ''/lambda-'' @ inputName item @ ''.zip'')) = Inr r
         \<and> tr' = tr @ [PutObject bucket (''genezio-'' @ projectName pc @ ''/lambda-'' @ inputName item @ ''.zip'') content,
                        HeadObject bucket (''genezio-'' @ projectName pc @ ''/lambda-'' @ inputName item @ ''.zip'')]
         \<and> b' = addAll b (unitResources gw bucket (''genezio-'' @ projectName pc @ ''/lambda-'' @ inputName item @ ''.zip'')
                            item (classMethods c) runtime (VersionId r))"
proof -
  let ?key = "''genezio-'' @ projectName pc @ ''/lambda-'' @ inputName item @ ''.zip''"
  from assms obtain u tr1 where
    up: "uploadZipToS3 e bucket ?key (archivePath item) tr = (Inr u, tr1)"
    by (auto simp: processUnit_def Let_def dest!: bind_Inr_cases)
  from uploadZipToS3_Inr[OF up] obtain content r0 where
    c: "readFileSync e (archivePath item) = Inr content"
       "respond e tr (PutObject bucket ?key content) = Inr r0"
       "tr1 = tr @ [PutObject bucket ?key content]"
    by blast
  from assms up obtain cc where f: "find (\<lambda>c. classPath c = filePath item) (classes pc) = Some cc"
    by (cases "find (\<lambda>c. classPath c = filePath item) (classes pc)") (auto simp: processUnit_def Let_def)
  from assms up f obtain runtime where rt: "getFunctionRuntime (language cc) = Inr runtime"
    by (cases "getFunctionRuntime (language cc)") (auto simp: processUnit_def Let_def)
  from assms up f rt obtain v tr2 where
    g: "getLatestObjectVersion e bucket ?key tr1 = (Inr v, tr2)"
    and b': "b' = addAll b (unitResources gw bucket ?key item (classMethods cc) runtime v)"
    and tr': "tr' = tr2"
    by (auto simp: processUnit_def Let_def unitResources_def addMethodRoutes_addAll addAll_append addAll_Cons
             dest!: bind_Inr_cases)
  from getLatestObjectVersion_Inr[OF g] obtain r where
    "respond e tr1 (HeadObject bucket ?key) = Inr r" "v = VersionId r" "tr2 = tr1 @ [HeadObject bucket ?key]"
    by blast
  with c f rt b' tr' show ?thesis by auto
qed

section \<open>Commands issued while staging\<close>


lemma processUnit_trace:
  "\<exists>ext. snd (processUnit e pc gw bucket item b tr) = tr @ ext \<and> (\<forall>c \<in> set ext. \<not> isStackCall c)"
  by (auto simp: processUnit_def uploadZipToS3_def getLatestObjectVersion_def send_def bind_def Let_def
           split: sum.splits option.splits)

lemma processUnits_trace:
  "\<exists>ext. snd (processUnits e pc gw bucket input b tr) = tr @ ext \<and> (\<forall>c \<in> set ext. \<not> isStackCall c)"
proof (induction input arbitrary: b tr)
  case Nil
  then show ?case by simp
next
  case (Cons item rest)
  obtain res tr1 where pu: "processUnit e pc gw bucket item b tr = (res, tr1)"
    by (cases "processUnit e pc gw bucket item b tr")
  from processUnit_trace[of e pc gw bucket item b tr] pu obtain ext1 where
    e1: "tr1 = tr @ ext1" "\<forall>c \<in> set ext1. \<not> isStackCall c"
    by auto
  show ?case
  proof (cases res)
    case (Inl err)
    with pu e1 show ?thesis by auto
  next
    case (Inr b1)
    from Cons.IH[of b1 tr1] obtain ext2 where
      "snd (processUnits e pc gw bucket rest b1 tr1) = tr1 @ ext2" "\<forall>c \<in> set ext2. \<not> isStackCall c"
      by blast
    with pu e1 Inr show ?thesis
      by (intro exI[of _ "ext1 @ ext2"]) auto
  qed
qed



section \<open>The scenario, stage by stage\<close>

lemmas shop_defs = shopProject_def shopInput_def ordersInput_def ordersMethods_def
  bucketNameOf_def stackNameOf_def gatewayOf_def bucketKeyOf_def alphanumericString_def

lemma shop_names:
  "bucketNameOf (shopProject l) = ''bucket-us-east-1-shop''"
  "stackNameOf (shopProject l) = ''genezio-shop''"
  "gatewayOf (shopProject l) = ''ApiGatewayshop''"
  "bucketKeyOf (shopProject l) ordersInput = ''genezio-shop/lambda-Orders.zip''"
  by (simp_all add: shop_defs)

lemma shop_ensureBucket:
  "ensureBucket (account init final url) (shopProject l) ''bucket-us-east-1-shop'' [] = (Inr (), take 3 shopStaged)"
  by (simp add: ensureBucket_def send_def Let_def account_def shopStaged_def shopProject_def)

lemma shop_upload:
  "uploadZipToS3 (account init final url) ''bucket-us-east-1-shop'' ''genezio-shop/lambda-Orders.zip''
      (archivePath ordersInput) (take 3 shopStaged) = (Inr (), take 4 shopStaged)"
  by (simp add: uploadZipToS3_def send_def account_def shopStaged_def ordersInput_def)

lemma shop_processUnits:
  "processUnits (account init final url) (shopProject ''.ts'') ''ApiGatewayshop'' ''bucket-us-east-1-shop''
      shopInput (newBuilder ''ApiGatewayshop'') (take 3 shopStaged) = (Inr shopBuilder, shopStaged)"
  by (simp add: processUnit_def uploadZipToS3_def getLatestObjectVersion_def getFunctionRuntime_def
        send_def Let_def account_def shopStaged_def shop_defs shopBuilder_def unitResources_def
        addMethodRoutes_def addAll_Cons)

lemma stackNow_append:
  "stackNow init final (tr @ tr') = stackNow (stackNow init final tr) final tr'"
  by (induction tr arbitrary: init) simp_all

lemma stackNow_shopStaged [simp]: "stackNow init final shopStaged = init"
  by (simp add: shopStaged_def)

lemma shop_updateStack_absent:
  "updateStack (account None final url) t ''genezio-shop'' shopStaged
     = (Inr (), shopStaged @ [DescribeStacks ''genezio-shop'',
                             CreateStack ''genezio-shop'' t [''CAPABILITY_IAM''],
                             WaitUntilStackCreateComplete 360 ''genezio-shop''])"
  by (simp add: updateStack_def checkIfStackExists_def send_def account_def stackNow_append)

lemma shop_updateStack_existing:
  "updateStack (account (Some ''UPDATE_COMPLETE'') final url) t ''genezio-shop'' shopStaged
     = (Inr (), shopStaged @ [DescribeStacks ''genezio-shop'',
                             UpdateStack ''genezio-shop'' t [''CAPABILITY_IAM''],
                             WaitUntilStackUpdateComplete 360 ''genezio-shop''])"
  by (simp add: updateStack_def checkIfStackExists_def send_def account_def stackNow_append)

lemma shop_describe_created:
  "respond (account None final url)
      (shopStaged @ [DescribeStacks ''genezio-shop'', CreateStack ''genezio-shop'' t [''CAPABILITY_IAM''],
                     WaitUntilStackCreateComplete 360 ''genezio-shop''])
      (DescribeStacks ''genezio-shop'')
    = Inr \<lparr> VersionId = None,
            Stacks = Some [\<lparr> StackStatus = Some final, Outputs = Some [\<lparr> OutputValue = Some url \<rparr>] \<rparr>] \<rparr>"
  by (simp add: account_def stackNow_append)

lemma shop_describe_updated:
  "respond (account (Some ''UPDATE_COMPLETE'') final url)
      (shopStaged @ [DescribeStacks ''genezio-shop'', UpdateStack ''genezio-shop'' t [''CAPABILITY_IAM''],
                     WaitUntilStackUpdateComplete 360 ''genezio-shop''])
      (DescribeStacks ''genezio-shop'')
    = Inr \<lparr> VersionId = None,
            Stacks = Some [\<lparr> StackStatus = Some final, Outputs = Some [\<lparr> OutputValue = Some url \<rparr>] \<rparr>] \<rparr>"
  by (simp add: account_def stackNow_append)

lemma shop_classOutputs:
  "classOutputs ''https://abc123.example/prod'' shopInput = shopResult"
  by (simp add: classOutputs_def getFunctionUrl_def shopResult_def shop_defs)

section \<open>The stages of deploy\<close>

lemma deploy_stages:
  "deploy e input pc =
     bind (ensureBucket e pc (bucketNameOf pc) []) (\<lambda>u tr1.
     bind (processUnits e pc (gatewayOf pc) (bucketNameOf pc) input (newBuilder (gatewayOf pc)) tr1) (\<lambda>b tr2.
     bind (updateStack e (build b) (stackNameOf pc) tr2) (\<lambda>u' tr3.
       readOutputs e (stackNameOf pc) input tr3)))"
  by (simp add: deploy_def Let_def bucketNameOf_def gatewayOf_def stackNameOf_def)

lemma deploy_Inr:
  assumes "deploy e input pc = (Inr out, tr')"
  shows "\<exists>tr1 b tr2 tr3.
           ensureBucket e pc (bucketNameOf pc) [] = (Inr (), tr1)
         \<and> processUnits e pc (gatewayOf pc) (bucketNameOf pc) input (newBuilder (gatewayOf pc)) tr1 = (Inr b, tr2)
         \<and> updateStack e (build b) (stackNameOf pc) tr2 = (Inr (), tr3)
         \<and> readOutputs e (stackNameOf pc) input tr3 = (Inr out, tr')"
proof -
  from assms obtain u tr1 where
    s1: "ensureBucket e pc (bucketNameOf pc) [] = (Inr u, tr1)"
    and r1: "bind (processUnits e pc (gatewayOf pc) (bucketNameOf pc) input (newBuilder (gatewayOf pc)) tr1) (\<lambda>b tr2.
             bind (updateStack e (build b) (stackNameOf pc) tr2) (\<lambda>u' tr3.
               readOutputs e (stackNameOf pc) input tr3)) = (Inr out, tr')"
    unfolding deploy_stages by (blast dest: bind_Inr_cases)
  from r1 obtain b tr2 where
    s2: "processUnits e pc (gatewayOf pc) (bucketNameOf pc) input (newBuilder (gatewayOf pc)) tr1 = (Inr b, tr2)"
    and r2: "bind (updateStack e (build b) (stackNameOf pc) tr2) (\<lambda>u' tr3.
               readOutputs e (stackNameOf pc) input tr3) = (Inr out, tr')"
    by (blast dest: bind_Inr_cases)
  from r2 obtain u' tr3 where
    s3: "updateStack e (build b) (stackNameOf pc) tr2 = (Inr u', tr3)"
    and s4: "readOutputs e (stackNameOf pc) input tr3 = (Inr out, tr')"
    by (blast dest: bind_Inr_cases)
  from s1 s2 s3 s4 show ?thesis by auto
qed

lemma readOutputs_Inr:
  assumes "readOutputs e n input tr = (Inr out, tr')"
  shows "\<exists>d s rest out1 outs.
           respond e tr (DescribeStacks n) = Inr d \<and> completeStack d
         \<and> Stacks d = Some (s # rest) \<and> Outputs s = Some (out1 # outs)
         \<and> out = classOutputs (case OutputValue out1 of None \<Rightarrow> ''undefined'' | Some v \<Rightarrow> v) input
         \<and> tr' = tr @ [DescribeStacks n]"
  using assms
  by (auto simp: readOutputs_def send_def bind_def stackIsComplete_def completeStack_def Let_def
           split: sum.splits option.splits list.splits if_splits)

lemma readOutputs_degraded:
  assumes "respond e tr (DescribeStacks n) = Inr d" and "\<not> completeStack d"
  shows "readOutputs e n input tr = (Inl (Error ''Error'' ''Stack update failed''), tr @ [DescribeStacks n])"
  using assms
  by (auto simp: readOutputs_def send_def stackIsComplete_def completeStack_def
           split: option.splits list.splits)

section \<open>The final check of the stack\<close>

lemma deploy_after_convergence:
  assumes "ensureBucket e pc (bucketNameOf pc) [] = (Inr (), tr1)"
      and "processUnits e pc (gatewayOf pc) (bucketNameOf pc) input (newBuilder (gatewayOf pc)) tr1 = (Inr b, tr2)"
      and "updateStack e (build b) (stackNameOf pc) tr2 = (Inr (), tr3)"
  shows "deploy e input pc = readOutputs e (stackNameOf pc) input tr3"
  using assms by (simp add: deploy_stages)

text \<open>
  C7. When \<open>deploy\<close> returns a result, its last command is a describe of the stack,
  issued after \<open>#updateStack\<close> returned, and the answer to that describe has a first
  stack whose status is \<open>CREATE_COMPLETE\<close> or \<open>UPDATE_COMPLETE\<close>. When staging,
  synthesis and \<open>#updateStack\<close> went through and the answer to that describe is
  anything else (no stack list, an empty one, or a first stack with another status or
  none), \<open>deploy\<close> fails with the error "Stack update failed".
\<close>

theorem deploy_succeeds_only_on_complete_stack:
  "(deploy e input pc = (Inr out, tr') \<longrightarrow>
      (\<exists>b tr2 tr3 d.
          updateStack e (build b) (stackNameOf pc) tr2 = (Inr (), tr3)
        \<and> tr' = tr3 @ [DescribeStacks (stackNameOf pc)]
        \<and> respond e tr3 (DescribeStacks (stackNameOf pc)) = Inr d
        \<and> completeStack d))
   \<and> (ensureBucket e pc (bucketNameOf pc) [] = (Inr (), tr1)
        \<and> processUnits e pc (gatewayOf pc) (bucketNameOf pc) input (newBuilder (gatewayOf pc)) tr1 = (Inr b', tr2')
        \<and> updateStack e (build b') (stackNameOf pc) tr2' = (Inr (), tr3')
        \<and> respond e tr3' (DescribeStacks (stackNameOf pc)) = Inr d' \<and> \<not> completeStack d' \<longrightarrow>
        deploy e input pc
          = (Inl (Error ''Error'' ''Stack update failed''), tr3' @ [DescribeStacks (stackNameOf pc)]))"
proof (intro conjI impI)
  assume "deploy e input pc = (Inr out, tr')"
  from deploy_Inr[OF this] obtain b tr2 tr3 where
    u: "updateStack e (build b) (stackNameOf pc) tr2 = (Inr (), tr3)"
    and r: "readOutputs e (stackNameOf pc) input tr3 = (Inr out, tr')"
    by blast
  from readOutputs_Inr[OF r] u
  show "\<exists>b tr2 tr3 d.
          updateStack e (build b) (stackNameOf pc) tr2 = (Inr (), tr3)
        \<and> tr' = tr3 @ [DescribeStacks (stackNameOf pc)]
        \<and> respond e tr3 (DescribeStacks (stackNameOf pc)) = Inr d
        \<and> completeStack d"
    by blast
next
  assume a: "ensureBucket e pc (bucketNameOf pc) [] = (Inr (), tr1)
        \<and> processUnits e pc (gatewayOf pc) (bucketNameOf pc) input (newBuilder (gatewayOf pc)) tr1 = (Inr b', tr2')
        \<and> updateStack e (build b') (stackNameOf pc) tr2' = (Inr (), tr3')
        \<and> respond e tr3' (DescribeStacks (stackNameOf pc)) = Inr d' \<and> \<not> completeStack d'"
  then have "deploy e input pc = readOutputs e (stackNameOf pc) input tr3'"
    using deploy_after_convergence by blast
  with a show "deploy e input pc
          = (Inl (Error ''Error'' ''Stack update failed''), tr3' @ [DescribeStacks (stackNameOf pc)])"
    using readOutputs_degraded by simp
qed

lemma shop_deploy_created:
  "deploy (account None ''CREATE_COMPLETE'' ''https://abc123.example/prod'') shopInput (shopProject ''.ts'')
     = (Inr shopResult,
        shopStaged @ [DescribeStacks ''genezio-shop'',
                      CreateStack ''genezio-shop'' (build shopBuilder) [''CAPABILITY_IAM''],
                      WaitUntilStackCreateComplete 360 ''genezio-shop'',
                      DescribeStacks ''genezio-shop''])"
proof -
  let ?e = "account None ''CREATE_COMPLETE'' ''https://abc123.example/prod''"
  let ?tr3 = "shopStaged @ [DescribeStacks ''genezio-shop'',
                      CreateStack ''genezio-shop'' (build shopBuilder) [''CAPABILITY_IAM''],
                      WaitUntilStackCreateComplete 360 ''genezio-shop'']"
  have "deploy ?e shopInput (shopProject ''.ts'') = readOutputs ?e ''genezio-shop'' shopInput ?tr3"
    by (simp add: deploy_stages shop_names shop_ensureBucket shop_processUnits shop_updateStack_absent)
  also have "\<dots> = (Inr shopResult, ?tr3 @ [DescribeStacks ''genezio-shop''])"
    using shop_describe_created[of "''CREATE_COMPLETE''" "''https://abc123.example/prod''" "build shopBuilder"]
    by (simp add: readOutputs_def send_def stackIsComplete_def shop_classOutputs del: append_assoc)
  finally show ?thesis by simp
qed

theorem deploy_succeeds_only_on_complete_stack_witness:
  "deploy (account None ''CREATE_COMPLETE'' ''https://abc123.example/prod'') shopInput (shopProject ''.ts'')
     = (Inr shopResult,
        shopStaged @ [DescribeStacks ''genezio-shop'',
                      CreateStack ''genezio-shop'' (build shopBuilder) [''CAPABILITY_IAM''],
                      WaitUntilStackCreateComplete 360 ''genezio-shop'',
                      DescribeStacks ''genezio-shop''])
   \<and> (\<exists>tr3 d. respond (account None ''CREATE_COMPLETE'' ''https://abc123.example/prod'') tr3
                  (DescribeStacks ''genezio-shop'') = Inr d \<and> completeStack d)
   \<and> deploy (account (Some ''UPDATE_COMPLETE'') ''UPDATE_ROLLBACK_COMPLETE'' ''https://abc123.example/prod'')
        shopInput (shopProject ''.ts'')
     = (Inl (Error ''Error'' ''Stack update failed''),
        shopStaged @ [DescribeStacks ''genezio-shop'',
                      UpdateStack ''genezio-shop'' (build shopBuilder) [''CAPABILITY_IAM''],
                      WaitUntilStackUpdateComplete 360 ''genezio-shop'',
                      DescribeStacks ''genezio-shop''])"
proof -
  let ?good = "account None ''CREATE_COMPLETE'' ''https://abc123.example/prod''"
  let ?bad = "account (Some ''UPDATE_COMPLETE'') ''UPDATE_ROLLBACK_COMPLETE'' ''https://abc123.example/prod''"
  let ?pc = "shopProject ''.ts''"
  let ?tr3 = "shopStaged @ [DescribeStacks ''genezio-shop'',
                      UpdateStack ''genezio-shop'' (build shopBuilder) [''CAPABILITY_IAM''],
                      WaitUntilStackUpdateComplete 360 ''genezio-shop'']"
  let ?d = "\<lparr> VersionId = None,
            Stacks = Some [\<lparr> StackStatus = Some ''UPDATE_ROLLBACK_COMPLETE'',
                             Outputs = Some [\<lparr> OutputValue = Some ''https://abc123.example/prod'' \<rparr>] \<rparr>] \<rparr>"
  note T = deploy_succeeds_only_on_complete_stack
  have h1: "ensureBucket ?bad ?pc (bucketNameOf ?pc) [] = (Inr (), take 3 shopStaged)"
    by (simp add: shop_names shop_ensureBucket)
  have h2: "processUnits ?bad ?pc (gatewayOf ?pc) (bucketNameOf ?pc) shopInput (newBuilder (gatewayOf ?pc))
              (take 3 shopStaged) = (Inr shopBuilder, shopStaged)"
    by (simp add: shop_names shop_processUnits)
  have h3: "updateStack ?bad (build shopBuilder) (stackNameOf ?pc) shopStaged = (Inr (), ?tr3)"
    by (simp add: shop_names shop_updateStack_existing)
  have h4: "respond ?bad ?tr3 (DescribeStacks (stackNameOf ?pc)) = Inr ?d"
    by (simp add: shop_names shop_describe_updated)
  have h5: "\<not> completeStack ?d"
    by (simp add: completeStack_def)
  have bad: "deploy ?bad shopInput ?pc
     = (Inl (Error ''Error'' ''Stack update failed''), ?tr3 @ [DescribeStacks (stackNameOf ?pc)])"
    using T[of ?bad shopInput ?pc shopResult "[]" "take 3 shopStaged" shopBuilder shopStaged ?tr3 ?d]
          h1 h2 h3 h4 h5 by blast
  let ?tr' = "shopStaged @ [DescribeStacks ''genezio-shop'',
                      CreateStack ''genezio-shop'' (build shopBuilder) [''CAPABILITY_IAM''],
                      WaitUntilStackCreateComplete 360 ''genezio-shop'',
                      DescribeStacks ''genezio-shop'']"
  have "\<exists>b tr2 tr3 d.
          updateStack ?good (build b) (stackNameOf ?pc) tr2 = (Inr (), tr3)
        \<and> ?tr' = tr3 @ [DescribeStacks (stackNameOf ?pc)]
        \<and> respond ?good tr3 (DescribeStacks (stackNameOf ?pc)) = Inr d
        \<and> completeStack d"
    using T[of ?good shopInput ?pc shopResult ?tr'
               "take 3 shopStaged" shopBuilder shopStaged ?tr3 ?d]
          shop_deploy_created by blast
  then have "\<exists>tr3 d. respond ?good tr3 (DescribeStacks ''genezio-shop'') = Inr d \<and> completeStack d"
    unfolding shop_names by blast
  with bad shop_deploy_created show ?thesis
    by (simp add: shop_names)
qed

section \<open>The end-to-end scenario\<close>

lemma updateStack_absent:
  assumes "fst (checkIfStackExists e n tr) = Inr \<lparr> exists = False, status = None \<rparr>"
      and "respond e (tr @ [DescribeStacks n]) (CreateStack n t [''CAPABILITY_IAM'']) = Inr r1"
      and "respond e (tr @ [DescribeStacks n, CreateStack n t [''CAPABILITY_IAM'']])
             (WaitUntilStackCreateComplete 360 n) = Inr r2"
  shows "updateStack e t n tr
           = (Inr (), tr @ [DescribeStacks n, CreateStack n t [''CAPABILITY_IAM''],
                            WaitUntilStackCreateComplete 360 n])"
proof -
  have "checkIfStackExists e n tr = (Inr \<lparr> exists = False, status = None \<rparr>, tr @ [DescribeStacks n])"
    using assms(1) snd_checkIfStackExists[of e n tr] by (metis prod.collapse)
  then show ?thesis
    using assms(2,3) by (simp add: updateStack_def send_def)
qed

lemma classOutputs_urls:
  assumes "co \<in> set (classOutputs base input)" and "mo \<in> set (methodOutputs co)"
  shows "functionUrl co = base @ ''/'' @ className co
       \<and> (outType mo = ''http'' \<longrightarrow> methodUrl mo = functionUrl co @ ''/'' @ outName mo)
       \<and> (outType mo \<noteq> ''http'' \<longrightarrow> methodUrl mo = functionUrl co)"
  using assms by (auto simp: classOutputs_def getFunctionUrl_def)

lemma deploy_Inr_classOutputs:
  assumes "deploy e input pc = (Inr out, tr')"
  shows "\<exists>base. out = classOutputs base input"
proof -
  from deploy_Inr[OF assms] obtain tr3 where
    "readOutputs e (stackNameOf pc) input tr3 = (Inr out, tr')"
    by blast
  from readOutputs_Inr[OF this] show ?thesis
    by blast
qed

text \<open>
  C5. For the project \<open>shop\<close> in \<open>us-east-1\<close> with the unit \<open>Orders\<close> and its
  methods \<open>invoice\<close> (http) and \<open>list\<close> (rpc), whatever text names the unit's
  language (the classes carry TypeScript as \<open>.ts\<close>): when the bucket is ensured and
  the loop over the units goes through, the probe finds no stack, the create command
  and the wait for it are accepted, and the describe that follows answers with a first
  stack in status \<open>CREATE_COMPLETE\<close> whose first output is
  \<open>https://abc123.example/prod\<close>, \<open>deploy\<close> returns exactly the result with the base
  URL \<open>https://abc123.example/prod/Orders\<close>, that URL followed by \<open>/invoice\<close> for
  \<open>invoice\<close>, and the base URL for \<open>list\<close>. And in every result that \<open>deploy\<close>
  returns, for any project, the results are those of the input units in order, the URL
  of a method whose kind is http is the unit's base URL followed by \<open>/\<close> and the
  method's name, and the URL of every method of another kind is the unit's base URL.
\<close>

theorem deploy_resolves_endpoints:
  assumes "ensureBucket e (shopProject lang) ''bucket-us-east-1-shop'' [] = (Inr (), tr1)"
      and "processUnits e (shopProject lang) ''ApiGatewayshop'' ''bucket-us-east-1-shop'' shopInput
             (newBuilder ''ApiGatewayshop'') tr1 = (Inr b, tr2)"
      and "fst (checkIfStackExists e ''genezio-shop'' tr2) = Inr \<lparr> exists = False, status = None \<rparr>"
      and "respond e (tr2 @ [DescribeStacks ''genezio-shop''])
             (CreateStack ''genezio-shop'' (build b) [''CAPABILITY_IAM'']) = Inr r1"
      and "respond e (tr2 @ [DescribeStacks ''genezio-shop'',
                             CreateStack ''genezio-shop'' (build b) [''CAPABILITY_IAM'']])
             (WaitUntilStackCreateComplete 360 ''genezio-shop'') = Inr r2"
      and "respond e (tr2 @ [DescribeStacks ''genezio-shop'',
                             CreateStack ''genezio-shop'' (build b) [''CAPABILITY_IAM''],
                             WaitUntilStackCreateComplete 360 ''genezio-shop''])
             (DescribeStacks ''genezio-shop'') = Inr d"
      and "Stacks d = Some (s # rest)"
      and "StackStatus s = Some ''CREATE_COMPLETE''"
      and "Outputs s = Some (out1 # outs)"
      and "OutputValue out1 = Some ''https://abc123.example/prod''"
  shows "deploy e shopInput (shopProject lang)
           = (Inr shopResult,
              tr2 @ [DescribeStacks ''genezio-shop'',
                     CreateStack ''genezio-shop'' (build b) [''CAPABILITY_IAM''],
                     WaitUntilStackCreateComplete 360 ''genezio-shop'',
                     DescribeStacks ''genezio-shop''])
       \<and> (deploy e' input pc = (Inr out, tr') \<longrightarrow>
             map className out = map inputName input
           \<and> map (\<lambda>co. map outName (methodOutputs co)) out
                = map (\<lambda>item. map methodName (inputMethods item)) input
           \<and> (\<forall>co \<in> set out. \<forall>mo \<in> set (methodOutputs co).
                  (outType mo = ''http'' \<longrightarrow> methodUrl mo = functionUrl co @ ''/'' @ outName mo)
                \<and> (outType mo \<noteq> ''http'' \<longrightarrow> methodUrl mo = functionUrl co)))"
proof (intro conjI impI)
  let ?tr3 = "tr2 @ [DescribeStacks ''genezio-shop'',
                     CreateStack ''genezio-shop'' (build b) [''CAPABILITY_IAM''],
                     WaitUntilStackCreateComplete 360 ''genezio-shop'']"
  have u: "updateStack e (build b) ''genezio-shop'' tr2 = (Inr (), ?tr3)"
    using assms(3,4,5) by (rule updateStack_absent)
  have "deploy e shopInput (shopProject lang) = readOutputs e ''genezio-shop'' shopInput ?tr3"
    using assms(1,2) u by (simp add: deploy_stages shop_names)
  also have "\<dots> = (Inr shopResult, ?tr3 @ [DescribeStacks ''genezio-shop''])"
    using assms(6-10)
    by (simp add: readOutputs_def send_def stackIsComplete_def shop_classOutputs del: append_assoc)
  finally show "deploy e shopInput (shopProject lang)
           = (Inr shopResult,
              tr2 @ [DescribeStacks ''genezio-shop'',
                     CreateStack ''genezio-shop'' (build b) [''CAPABILITY_IAM''],
                     WaitUntilStackCreateComplete 360 ''genezio-shop'',
                     DescribeStacks ''genezio-shop''])"
    by simp
next
  assume "deploy e' input pc = (Inr out, tr')"
  then obtain base where out: "out = classOutputs base input"
    using deploy_Inr_classOutputs by blast
  show "map className out = map inputName input"
    by (simp add: out classOutputs_def comp_def)
  show "map (\<lambda>co. map outName (methodOutputs co)) out
          = map (\<lambda>item. map methodName (inputMethods item)) input"
    by (simp add: out classOutputs_def comp_def)
  show "\<forall>co \<in> set out. \<forall>mo \<in> set (methodOutputs co).
                  (outType mo = ''http'' \<longrightarrow> methodUrl mo = functionUrl co @ ''/'' @ outName mo)
                \<and> (outType mo \<noteq> ''http'' \<longrightarrow> methodUrl mo = functionUrl co)"
    unfolding out using classOutputs_urls by blast
qed

theorem deploy_resolves_endpoints_witness:
  "deploy (account None ''CREATE_COMPLETE'' ''https://abc123.example/prod'') shopInput (shopProject ''.ts'')
     = (Inr shopResult,
        shopStaged @ [DescribeStacks ''genezio-shop'',
                      CreateStack ''genezio-shop'' (build shopBuilder) [''CAPABILITY_IAM''],
                      WaitUntilStackCreateComplete 360 ''genezio-shop'',
                      DescribeStacks ''genezio-shop''])
   \<and> map className shopResult = map inputName shopInput
   \<and> list_all (\<lambda>co. list_all (\<lambda>mo. outType mo = ''http'' \<or> methodUrl mo = functionUrl co)
                         (methodOutputs co)) shopResult"
proof -
  let ?e = "account None ''CREATE_COMPLETE'' ''https://abc123.example/prod''"
  let ?s = "\<lparr> StackStatus = Some ''CREATE_COMPLETE'',
              Outputs = Some [\<lparr> OutputValue = Some ''https://abc123.example/prod'' \<rparr>] \<rparr>"
  let ?d = "\<lparr> VersionId = None, Stacks = Some [?s] \<rparr>"
  let ?tr' = "shopStaged @ [DescribeStacks ''genezio-shop'',
                      CreateStack ''genezio-shop'' (build shopBuilder) [''CAPABILITY_IAM''],
                      WaitUntilStackCreateComplete 360 ''genezio-shop'',
                      DescribeStacks ''genezio-shop'']"
  have h3: "fst (checkIfStackExists ?e ''genezio-shop'' shopStaged) = Inr \<lparr> exists = False, status = None \<rparr>"
    by (simp add: checkIfStackExists_def send_def account_def)
  have h4: "respond ?e (shopStaged @ [DescribeStacks ''genezio-shop''])
             (CreateStack ''genezio-shop'' (build shopBuilder) [''CAPABILITY_IAM'']) = Inr emptyReply"
    by (simp add: account_def)
  have h5: "respond ?e (shopStaged @ [DescribeStacks ''genezio-shop'',
                             CreateStack ''genezio-shop'' (build shopBuilder) [''CAPABILITY_IAM'']])
             (WaitUntilStackCreateComplete 360 ''genezio-shop'') = Inr emptyReply"
    by (simp add: account_def)
  have h7: "Stacks ?d = Some (?s # [])" and h8: "StackStatus ?s = Some ''CREATE_COMPLETE''"
    and h9: "Outputs ?s = Some (\<lparr> OutputValue = Some ''https://abc123.example/prod'' \<rparr> # [])"
    and h10: "OutputValue \<lparr> OutputValue = Some ''https://abc123.example/prod'' \<rparr>
                = Some ''https://abc123.example/prod''"
    by simp_all
  note T = deploy_resolves_endpoints
             [OF shop_ensureBucket shop_processUnits h3 h4 h5 shop_describe_created h7 h8 h9 h10,
              of ?e shopInput "shopProject ''.ts''" shopResult ?tr']
  from T have run: "deploy ?e shopInput (shopProject ''.ts'') = (Inr shopResult, ?tr')"
    by blast
  with T have names: "map className shopResult = map inputName shopInput"
    and rule: "\<forall>co \<in> set shopResult. \<forall>mo \<in> set (methodOutputs co).
                  (outType mo = ''http'' \<longrightarrow> methodUrl mo = functionUrl co @ ''/'' @ outName mo)
                \<and> (outType mo \<noteq> ''http'' \<longrightarrow> methodUrl mo = functionUrl co)"
    by blast+
  from rule have "list_all (\<lambda>co. list_all (\<lambda>mo. outType mo = ''http'' \<or> methodUrl mo = functionUrl co)
                         (methodOutputs co)) shopResult"
    by (auto simp: list_all_iff)
  with run names show ?thesis by blast
qed

section \<open>Unsupported languages\<close>

lemma processUnits_append:
  "processUnits e pc gw bucket (xs @ ys) b tr =
     bind (processUnits e pc gw bucket xs b tr) (\<lambda>b' tr'. processUnits e pc gw bucket ys b' tr')"
proof (induction xs arbitrary: b tr)
  case Nil
  then show ?case by simp
next
  case (Cons x xs)
  show ?case
    by (cases "processUnit e pc gw bucket x b tr" rule: prod.exhaust[case_names Pair])
       (auto simp: Cons.IH bind_def split: sum.splits)
qed


text \<open>
  The switch of \<open>deployClasses\<close> and the runtime table of the adapter accept the same
  languages, so a class that reaches the adapter through \<open>deployClasses\<close> has a
  runtime.
\<close>

lemma selectBundler_getFunctionRuntime:
  "(\<exists>err. selectBundler lang = Inl err) \<longleftrightarrow> (\<exists>err. getFunctionRuntime lang = Inl err)"
  by (simp add: selectBundler_def getFunctionRuntime_def)

lemma processUnit_unsupported_uploaded:
  assumes "find (\<lambda>c. classPath c = filePath item) (classes pc) = Some c"
      and "getFunctionRuntime (language c) = Inl err"
      and "uploadZipToS3 e bucket (bucketKeyOf pc item) (archivePath item) tr = (Inr (), tr')"
  shows "processUnit e pc gw bucket item b tr = (Inl err, tr')"
  using assms by (simp add: processUnit_def Let_def bucketKeyOf_def)

lemma ensureBucket_starts:
  "\<exists>ext. snd (ensureBucket e pc bucket []) = HeadBucket bucket # ext"
  by (auto simp: ensureBucket_def send_def bind_def Let_def split: sum.splits)














section \<open>The resources of a template\<close>

lemma update_fresh: "k \<notin> fst ` set al \<Longrightarrow> AList.update k v al = al @ [(k, v)]"
  by (induction al) auto

lemma resources_new [simp]:
  "\<exists>api. resources (template (newBuilder gw)) = [(gw, api)] \<and> jget api ''Type'' = JStr ''AWS::ApiGatewayV2::Api''"
  by (simp add: resources_def newBuilder_def)

lemma resources_add:
  assumes "wellShaped b" and "n \<notin> fst ` set (resources (template b))"
  shows "resources (template (addResource b n c)) = resources (template b) @ [(n, c)]"
  using assms
  by (auto simp: wellShaped_def addResource_def resources_def update_conv' update_fresh)

lemma resources_addAll:
  assumes "wellShaped b" and "distinct (map fst adds)"
      and "fst ` set adds \<inter> fst ` set (resources (template b)) = {}"
  shows "resources (template (addAll b adds)) = resources (template b) @ adds"
  using assms(2,3)
proof (induction adds rule: rev_induct)
  case Nil
  then show ?case by simp
next
  case (snoc x adds)
  then have IH: "resources (template (addAll b adds)) = resources (template b) @ adds"
    by auto
  have "fst x \<notin> fst ` set (resources (template (addAll b adds)))"
    using snoc.prems unfolding IH by auto
  with assms(1) show ?case
    by (simp add: resources_add IH)
qed

lemma resources_build:
  assumes "wellShaped b"
      and "''ApiStage'' \<notin> fst ` set (resources (template b))"
      and "''ApiDeployment'' \<notin> fst ` set (resources (template b))"
  shows "resources (build b) = resources (template b)
           @ [(''ApiStage'', apiStage (apiGatewayResourceName b)),
              (''ApiDeployment'', apiDeployment (apiGatewayResourceName b) (resourceIds b))]"
  using assms
  by (auto simp: wellShaped_def build_def resources_def Let_def update_conv' update_fresh)

section \<open>What the loop adds\<close>

lemma processUnits_Inr:
  assumes "processUnits e pc gw bucket input b tr = (Inr b', tr')"
  shows "\<exists>urs. b' = addAll b (concat urs)
           \<and> list_all2 (\<lambda>item ur. \<exists>c runtime v.
                 find (\<lambda>c. classPath c = filePath item) (classes pc) = Some c
               \<and> getFunctionRuntime (language c) = Inr runtime
               \<and> ur = unitResources gw bucket (bucketKeyOf pc item) item (classMethods c) runtime v) input urs"
  using assms
proof (induction input arbitrary: b tr)
  case Nil
  then show ?case by (intro exI[of _ "[]"]) simp
next
  case (Cons item rest)
  from Cons.prems obtain b1 tr1 where
    one: "processUnit e pc gw bucket item b tr = (Inr b1, tr1)"
    and more: "processUnits e pc gw bucket rest b1 tr1 = (Inr b', tr')"
    by (auto dest: bind_Inr_cases)
  from processUnit_Inr[OF one] obtain c runtime v where
    u: "find (\<lambda>c. classPath c = filePath item) (classes pc) = Some c"
       "getFunctionRuntime (language c) = Inr runtime"
       "b1 = addAll b (unitResources gw bucket (bucketKeyOf pc item) item (classMethods c) runtime v)"
    unfolding bucketKeyOf_def by blast
  from Cons.IH[OF more] obtain urs where
    r: "b' = addAll b1 (concat urs)"
       "list_all2 (\<lambda>item ur. \<exists>c runtime v.
                 find (\<lambda>c. classPath c = filePath item) (classes pc) = Some c
               \<and> getFunctionRuntime (language c) = Inr runtime
               \<and> ur = unitResources gw bucket (bucketKeyOf pc item) item (classMethods c) runtime v) rest urs"
    by blast
  show ?case
    using u r
    by (intro exI[of _ "unitResources gw bucket (bucketKeyOf pc item) item (classMethods c) runtime v # urs"])
       (auto simp: addAll_append)
qed

lemma unitResources_keys:
  "(k, c) \<in> set (unitResources gw bucket key item ms runtime v) \<Longrightarrow> k \<noteq> [] \<and> hd k \<noteq> CHR ''A''"
  by (auto simp: unitResources_def Let_def)

lemma routesIn_append [simp]: "routesIn (xs @ ys) = routesIn xs @ routesIn ys"
  by (simp add: routesIn_def)

lemma routesIn_concat: "routesIn (concat urs) = concat (map routesIn urs)"
  by (induction urs) (simp_all add: routesIn_def)

lemma routesIn_unitResources:
  "routesIn (unitResources gw bucket key item ms runtime v) = expectedRoutes (inputName item) ms"
  by (simp add: routesIn_def unitResources_def Let_def expectedRoutes_def integrationTarget_def
        route_def invokePermission_def integration_def lambdaFunction_def executionRole_def
        filter_map comp_def)

lemma routesIn_fixed [simp]:
  "routesIn [(''ApiStage'', apiStage gw), (''ApiDeployment'', apiDeployment gw ids)] = []"
  by (simp add: routesIn_def apiStage_def apiDeployment_def)

section \<open>Routes\<close>

lemma list_all2_member:
  "list_all2 P xs ys \<Longrightarrow> y \<in> set ys \<Longrightarrow> \<exists>x \<in> set xs. P x y"
  by (induction rule: list_all2_induct) auto

lemma routesIn_skip:
  "jget c ''Type'' \<noteq> JStr ''AWS::ApiGatewayV2::Route'' \<Longrightarrow> routesIn ((k, c) # xs) = routesIn xs"
  by (simp add: routesIn_def)

lemma hd_gatewayOf: "hd (gatewayOf pc) = CHR ''A''"
  by (simp add: gatewayOf_def)

text \<open>The resources of the built template, when the emitted ids are distinct.\<close>

lemma resources_build_addAll:
  assumes b: "b = addAll (newBuilder (gatewayOf pc)) adds"
      and ids: "distinct (resourceIds b)"
      and keys: "\<forall>(k, c) \<in> set adds. k \<noteq> [] \<and> hd k \<noteq> CHR ''A''"
  shows "\<exists>api.
           resources (build b)
             = [(gatewayOf pc, api)] @ adds
               @ [(''ApiStage'', apiStage (gatewayOf pc)),
                  (''ApiDeployment'', apiDeployment (gatewayOf pc) (resourceIds b))]
         \<and> jget api ''Type'' = JStr ''AWS::ApiGatewayV2::Api''
         \<and> distinct (map fst (resources (build b)))"
proof -
  let ?gw = "gatewayOf pc"
  obtain api where api: "resources (template (newBuilder ?gw)) = [(?gw, api)]"
    "jget api ''Type'' = JStr ''AWS::ApiGatewayV2::Api''"
    using resources_new by blast
  have d: "distinct (map fst adds)"
    using ids by (simp add: b)
  have nk: "k \<notin> fst ` set adds" if "hd k = CHR ''A''" for k
    using keys that by force
  have fresh: "fst ` set adds \<inter> fst ` set (resources (template (newBuilder ?gw))) = {}"
    using nk[OF hd_gatewayOf[of pc]] by (simp add: api)
  have r: "resources (template b) = [(?gw, api)] @ adds"
    unfolding b using resources_addAll[OF wellShaped_new d fresh] by (simp add: api)
  have s1: "''ApiStage'' \<notin> fst ` set (resources (template b))"
    using nk[of "''ApiStage''"] by (simp add: r gatewayOf_def)
  have s2: "''ApiDeployment'' \<notin> fst ` set (resources (template b))"
    using nk[of "''ApiDeployment''"] by (simp add: r gatewayOf_def)
  have w: "wellShaped b"
    by (simp add: b)
  have rb: "resources (build b) = resources (template b)
           @ [(''ApiStage'', apiStage ?gw), (''ApiDeployment'', apiDeployment ?gw (resourceIds b))]"
    using resources_build[OF w s1 s2] by (simp add: b)
  have "distinct (map fst (resources (build b)))"
    unfolding rb using s1 s2 d nk[OF hd_gatewayOf[of pc]] by (auto simp: r)
  with rb r api(2) show ?thesis by auto
qed

lemma resources_built:
  assumes "processUnits e pc (gatewayOf pc) bucket input (newBuilder (gatewayOf pc)) tr = (Inr b, tr')"
      and "distinct (resourceIds b)"
  shows "\<exists>api urs.
           resources (build b)
             = [(gatewayOf pc, api)] @ concat urs
               @ [(''ApiStage'', apiStage (gatewayOf pc)),
                  (''ApiDeployment'', apiDeployment (gatewayOf pc) (resourceIds b))]
         \<and> jget api ''Type'' = JStr ''AWS::ApiGatewayV2::Api''
         \<and> list_all2 (\<lambda>item ur. \<exists>c runtime v.
                 find (\<lambda>c. classPath c = filePath item) (classes pc) = Some c
               \<and> getFunctionRuntime (language c) = Inr runtime
               \<and> ur = unitResources (gatewayOf pc) bucket (bucketKeyOf pc item) item (classMethods c) runtime v)
              input urs"
proof -
  let ?P = "\<lambda>item ur. \<exists>c runtime v.
                 find (\<lambda>c. classPath c = filePath item) (classes pc) = Some c
               \<and> getFunctionRuntime (language c) = Inr runtime
               \<and> ur = unitResources (gatewayOf pc) bucket (bucketKeyOf pc item) item (classMethods c) runtime v"
  from processUnits_Inr[OF assms(1)] obtain urs where
    b: "b = addAll (newBuilder (gatewayOf pc)) (concat urs)" and all: "list_all2 ?P input urs"
    by blast
  have keys: "k \<noteq> [] \<and> hd k \<noteq> CHR ''A''" if "(k, c) \<in> set (concat urs)" for k c
  proof -
    from that obtain ur where ur: "ur \<in> set urs" "(k, c) \<in> set ur" by auto
    from list_all2_member[OF all ur(1)] obtain item where "?P item ur"
      by blast
    with ur(2) show ?thesis
      using unitResources_keys by blast
  qed
  then have "\<forall>(k, c) \<in> set (concat urs). k \<noteq> [] \<and> hd k \<noteq> CHR ''A''"
    by blast
  from resources_build_addAll[OF b assms(2) this] all show ?thesis
    by blast
qed

lemma routes_of_units:
  assumes "list_all2 (\<lambda>item ur. \<exists>c runtime v.
                 find (\<lambda>c. classPath c = filePath item) (classes pc) = Some c
               \<and> getFunctionRuntime (language c) = Inr runtime
               \<and> ur = unitResources gw bucket (bucketKeyOf pc item) item (classMethods c) runtime v)
              input urs"
  shows "concat (map routesIn urs)
           = concat (map (\<lambda>item. expectedRoutes (inputName item) (methodsOf pc item)) input)"
  using assms
  by (induction input urs rule: list_all2_induct) (auto simp: routesIn_unitResources methodsOf_def)

text \<open>
  Where no id is emitted twice, the routes of the built template are, unit by unit, one
  route \<open>ANY /<unit>/<method>\<close> for each http method of the class found for the
  unit, followed by the catch-all route \<open>ANY /<unit>\<close>, all bound to the unit's
  integration, and nothing else.
\<close>

lemma routes_when_ids_distinct:
  assumes "processUnits e pc (gatewayOf pc) bucket input (newBuilder (gatewayOf pc)) tr = (Inr b, tr')"
      and "distinct (resourceIds b)"
  shows "templateRoutes (build b)
           = concat (map (\<lambda>item. expectedRoutes (inputName item) (methodsOf pc item)) input)
       \<and> (\<forall>item \<in> set input.
             (JStr (''ANY /'' @ inputName item), integrationTarget (inputName item))
                \<in> set (templateRoutes (build b))
           \<and> (\<forall>m \<in> set (methodsOf pc item). methodType m = ''http'' \<longrightarrow>
                 (JStr (''ANY /'' @ inputName item @ ''/'' @ methodName m), integrationTarget (inputName item))
                    \<in> set (templateRoutes (build b))))
       \<and> (\<forall>item. input = [item] \<and> inputName item = ''Orders'' \<and> methodsOf pc item = ordersMethods \<longrightarrow>
             map fst (templateRoutes (build b)) = [JStr ''ANY /Orders/invoice'', JStr ''ANY /Orders''])"
proof -
  from resources_built[OF assms] obtain api urs where
    r: "resources (build b)
             = [(gatewayOf pc, api)] @ concat urs
               @ [(''ApiStage'', apiStage (gatewayOf pc)),
                  (''ApiDeployment'', apiDeployment (gatewayOf pc) (resourceIds b))]"
    and api: "jget api ''Type'' = JStr ''AWS::ApiGatewayV2::Api''"
    and all: "list_all2 (\<lambda>item ur. \<exists>c runtime v.
                 find (\<lambda>c. classPath c = filePath item) (classes pc) = Some c
               \<and> getFunctionRuntime (language c) = Inr runtime
               \<and> ur = unitResources (gatewayOf pc) bucket (bucketKeyOf pc item) item (classMethods c) runtime v)
              input urs"
    by blast
  have "templateRoutes (build b) = concat (map routesIn urs)"
    using api by (simp add: templateRoutes_def r routesIn_concat routesIn_skip)
  then have eq: "templateRoutes (build b)
           = concat (map (\<lambda>item. expectedRoutes (inputName item) (methodsOf pc item)) input)"
    using routes_of_units[OF all] by simp
  have mem: "\<forall>item \<in> set input.
             (JStr (''ANY /'' @ inputName item), integrationTarget (inputName item))
                \<in> set (templateRoutes (build b))
           \<and> (\<forall>m \<in> set (methodsOf pc item). methodType m = ''http'' \<longrightarrow>
                 (JStr (''ANY /'' @ inputName item @ ''/'' @ methodName m), integrationTarget (inputName item))
                    \<in> set (templateRoutes (build b)))"
    unfolding eq by (auto simp: expectedRoutes_def)
  have orders: "\<forall>item. input = [item] \<and> inputName item = ''Orders'' \<and> methodsOf pc item = ordersMethods \<longrightarrow>
             map fst (templateRoutes (build b)) = [JStr ''ANY /Orders/invoice'', JStr ''ANY /Orders'']"
    unfolding eq by (auto simp: expectedRoutes_def ordersMethods_def)
  from eq mem orders show ?thesis by blast
qed


section \<open>The pinned version\<close>

lemma jget_build_resources:
  "wellShaped b \<Longrightarrow> jget (build b) ''Resources'' = JObj (resources (build b))"
  by (auto simp: wellShaped_def build_def resources_def Let_def update_conv')

lemma pinnedVersion_lambdaFunction:
  assumes "wellShaped b"
      and "distinct (map fst (resources (build b)))"
      and "(fid, lambdaFunction fid runtime role bucket key v) \<in> set (resources (build b))"
  shows "pinnedVersion (build b) fid = optStr v"
proof -
  have "map_of (resources (build b)) fid = Some (lambdaFunction fid runtime role bucket key v)"
    using assms(2,3) by simp
  then show ?thesis
    by (simp add: pinnedVersion_def jget_build_resources[OF assms(1)] lambdaFunction_def)
qed

lemma unitResources_function:
  "(functionIdOf item,
    lambdaFunction (functionIdOf item) runtime (''Role'' @ alphanumericString (inputName item)) bucket key v)
     \<in> set (unitResources gw bucket key item ms runtime v)"
  by (simp add: unitResources_def Let_def functionIdOf_def)

lemma processUnits_split:
  assumes "processUnits e pc gw bucket (pre @ item # post) b tr = (Inr b', tr')"
  shows "\<exists>b1 tr1 b2 tr2.
           processUnits e pc gw bucket pre b tr = (Inr b1, tr1)
         \<and> processUnit e pc gw bucket item b1 tr1 = (Inr b2, tr2)
         \<and> processUnits e pc gw bucket post b2 tr2 = (Inr b', tr')"
proof -
  from assms obtain b1 tr1 where
    p: "processUnits e pc gw bucket pre b tr = (Inr b1, tr1)"
    and r: "processUnits e pc gw bucket (item # post) b1 tr1 = (Inr b', tr')"
    unfolding processUnits_append by (blast dest: bind_Inr_cases)
  from r obtain b2 tr2 where
    "processUnit e pc gw bucket item b1 tr1 = (Inr b2, tr2)"
    "processUnits e pc gw bucket post b2 tr2 = (Inr b', tr')"
    by (auto dest: bind_Inr_cases)
  with p show ?thesis by blast
qed

lemma keys_of_units:
  assumes "list_all2 (\<lambda>item ur. \<exists>c runtime v.
                 find (\<lambda>c. classPath c = filePath item) (classes pc) = Some c
               \<and> getFunctionRuntime (language c) = Inr runtime
               \<and> ur = unitResources gw bucket (bucketKeyOf pc item) item (classMethods c) runtime v) input urs"
  shows "\<forall>(k, c) \<in> set (concat urs). k \<noteq> [] \<and> hd k \<noteq> CHR ''A''"
proof -
  have "k \<noteq> [] \<and> hd k \<noteq> CHR ''A''" if "(k, c) \<in> set (concat urs)" for k c
  proof -
    from that obtain ur where ur: "ur \<in> set urs" "(k, c) \<in> set ur" by auto
    from list_all2_member[OF assms ur(1)] ur(2) show ?thesis
      using unitResources_keys by blast
  qed
  then show ?thesis by blast
qed

lemma pinned_in_built:
  assumes run: "processUnits e pc (gatewayOf pc) bucket (pre @ item # post) (newBuilder (gatewayOf pc)) tr = (Inr b, tr')"
      and ids: "distinct (resourceIds b)"
  shows "\<exists>b1 b2 tr0 content r rest.
           processUnits e pc (gatewayOf pc) bucket pre (newBuilder (gatewayOf pc)) tr = (Inr b1, tr0)
         \<and> processUnit e pc (gatewayOf pc) bucket item b1 tr0
              = (Inr b2, tr0 @ [PutObject bucket (bucketKeyOf pc item) content,
                                HeadObject bucket (bucketKeyOf pc item)])
         \<and> tr' = tr0 @ [PutObject bucket (bucketKeyOf pc item) content,
                         HeadObject bucket (bucketKeyOf pc item)] @ rest
         \<and> respond e (tr0 @ [PutObject bucket (bucketKeyOf pc item) content])
              (HeadObject bucket (bucketKeyOf pc item)) = Inr r
         \<and> pinnedVersion (build b) (functionIdOf item) = optStr (VersionId r)"
proof -
  let ?gw = "gatewayOf pc"
  let ?key = "bucketKeyOf pc item"
  from processUnits_split[OF run] obtain b1 tr1 b2 tr2 where
    p1: "processUnits e pc ?gw bucket pre (newBuilder ?gw) tr = (Inr b1, tr1)"
    and p2: "processUnit e pc ?gw bucket item b1 tr1 = (Inr b2, tr2)"
    and p3: "processUnits e pc ?gw bucket post b2 tr2 = (Inr b, tr')"
    by blast
  from processUnit_Inr[OF p2] obtain c runtime content r where
    u: "find (\<lambda>c. classPath c = filePath item) (classes pc) = Some c"
       "getFunctionRuntime (language c) = Inr runtime"
       "respond e (tr1 @ [PutObject bucket ?key content]) (HeadObject bucket ?key) = Inr r"
       "tr2 = tr1 @ [PutObject bucket ?key content, HeadObject bucket ?key]"
       "b2 = addAll b1 (unitResources ?gw bucket ?key item (classMethods c) runtime (VersionId r))"
    unfolding bucketKeyOf_def by blast
  let ?ur = "unitResources ?gw bucket ?key item (classMethods c) runtime (VersionId r)"
  from processUnits_Inr[OF p1] obtain urs1 where
    a1: "b1 = addAll (newBuilder ?gw) (concat urs1)"
    and l1: "list_all2 (\<lambda>item ur. \<exists>c runtime v.
                 find (\<lambda>c. classPath c = filePath item) (classes pc) = Some c
               \<and> getFunctionRuntime (language c) = Inr runtime
               \<and> ur = unitResources ?gw bucket (bucketKeyOf pc item) item (classMethods c) runtime v) pre urs1"
    by blast
  from processUnits_Inr[OF p3] obtain urs2 where
    a2: "b = addAll b2 (concat urs2)"
    and l2: "list_all2 (\<lambda>item ur. \<exists>c runtime v.
                 find (\<lambda>c. classPath c = filePath item) (classes pc) = Some c
               \<and> getFunctionRuntime (language c) = Inr runtime
               \<and> ur = unitResources ?gw bucket (bucketKeyOf pc item) item (classMethods c) runtime v) post urs2"
    by blast
  have b: "b = addAll (newBuilder ?gw) (concat urs1 @ ?ur @ concat urs2)"
    by (simp add: a2 u(5) a1 addAll_append)
  have "\<forall>(k, c') \<in> set ?ur. k \<noteq> [] \<and> hd k \<noteq> CHR ''A''"
    using unitResources_keys by blast
  then have keys: "\<forall>(k, c) \<in> set (concat urs1 @ ?ur @ concat urs2). k \<noteq> [] \<and> hd k \<noteq> CHR ''A''"
    using keys_of_units[OF l1] keys_of_units[OF l2]
    by (simp add: ball_Un)
  from resources_build_addAll[OF b ids keys] obtain api where
    r: "resources (build b)
             = [(?gw, api)] @ (concat urs1 @ ?ur @ concat urs2)
               @ [(''ApiStage'', apiStage ?gw), (''ApiDeployment'', apiDeployment ?gw (resourceIds b))]"
    and d: "distinct (map fst (resources (build b)))"
    by blast
  have "(functionIdOf item,
          lambdaFunction (functionIdOf item) runtime (''Role'' @ alphanumericString (inputName item))
            bucket ?key (VersionId r)) \<in> set (resources (build b))"
    unfolding r using unitResources_function[of item runtime bucket ?key "VersionId r" ?gw "classMethods c"]
    by simp
  moreover have "wellShaped b"
    by (simp add: b)
  ultimately have pin: "pinnedVersion (build b) (functionIdOf item) = optStr (VersionId r)"
    using d by (rule pinnedVersion_lambdaFunction[rotated 2])
  from processUnits_trace[of e pc ?gw bucket post b2 tr2] p3 obtain rest where
    "tr' = tr2 @ rest" by auto
  then have t: "tr' = tr1 @ [PutObject bucket ?key content, HeadObject bucket ?key] @ rest"
    by (simp add: u(4))
  from p1 p2 u(3,4) t pin show ?thesis by blast
qed

section \<open>The upload's own version id is not used\<close>

lemma send_withUploadVersion [simp]:
  "send (withUploadVersion v e) (HeadBucket b) tr = send e (HeadBucket b) tr"
  "send (withUploadVersion v e) (CreateBucket b loc) tr = send e (CreateBucket b loc) tr"
  "send (withUploadVersion v e) (PutBucketVersioning b st) tr = send e (PutBucketVersioning b st) tr"
  "send (withUploadVersion v e) (HeadObject b k) tr = send e (HeadObject b k) tr"
  "send (withUploadVersion v e) (DescribeStacks n) tr = send e (DescribeStacks n) tr"
  "send (withUploadVersion v e) (CreateStack n t caps) tr = send e (CreateStack n t caps) tr"
  "send (withUploadVersion v e) (DeleteStack n) tr = send e (DeleteStack n) tr"
  "send (withUploadVersion v e) (UpdateStack n t caps) tr = send e (UpdateStack n t caps) tr"
  "send (withUploadVersion v e) (WaitUntilStackCreateComplete w n) tr = send e (WaitUntilStackCreateComplete w n) tr"
  "send (withUploadVersion v e) (WaitUntilStackDeleteComplete w n) tr = send e (WaitUntilStackDeleteComplete w n) tr"
  "send (withUploadVersion v e) (WaitUntilStackUpdateComplete w n) tr = send e (WaitUntilStackUpdateComplete w n) tr"
  by (simp_all add: withUploadVersion_def send_def)

lemma local_withUploadVersion [simp]:
  "readFileSync (withUploadVersion v e) = readFileSync e"
  "credentials (withUploadVersion v e) = credentials e"
  by (simp_all add: withUploadVersion_def)

lemma uploadZipToS3_withUploadVersion:
  "uploadZipToS3 (withUploadVersion v e) bucket key path tr = uploadZipToS3 e bucket key path tr"
proof (cases "readFileSync e path")
  case (Inl err)
  then show ?thesis by (simp add: uploadZipToS3_def)
next
  case (Inr content)
  have "bind (send (withUploadVersion v e) (PutObject bucket key content) tr) (\<lambda>r tr'. (Inr (), tr'))
      = bind (send e (PutObject bucket key content) tr) (\<lambda>r tr'. (Inr (), tr'))"
    by (cases "respond e tr (PutObject bucket key content)") (simp_all add: withUploadVersion_def send_def)
  with Inr show ?thesis by (simp add: uploadZipToS3_def)
qed

lemma getLatestObjectVersion_withUploadVersion:
  "getLatestObjectVersion (withUploadVersion v e) bucket key tr = getLatestObjectVersion e bucket key tr"
  by (simp add: getLatestObjectVersion_def)

lemma processUnit_withUploadVersion:
  "processUnit (withUploadVersion v e) pc gw bucket item b tr = processUnit e pc gw bucket item b tr"
  by (simp add: processUnit_def Let_def uploadZipToS3_withUploadVersion getLatestObjectVersion_withUploadVersion
        cong: option.case_cong sum.case_cong if_cong)

lemma processUnits_withUploadVersion:
  "processUnits (withUploadVersion v e) pc gw bucket input b tr = processUnits e pc gw bucket input b tr"
proof (induction input arbitrary: b tr)
  case Nil
  then show ?case by simp
next
  case (Cons item rest)
  have "processUnits (withUploadVersion v e) pc gw bucket rest = processUnits e pc gw bucket rest"
    by (intro ext) (rule Cons.IH)
  then show ?case
    by (simp add: processUnit_withUploadVersion)
qed

lemma ensureBucket_withUploadVersion:
  "ensureBucket (withUploadVersion v e) pc bucket tr = ensureBucket e pc bucket tr"
  by (simp add: ensureBucket_def Let_def cong: if_cong)

lemma checkIfStackExists_withUploadVersion:
  "checkIfStackExists (withUploadVersion v e) n tr = checkIfStackExists e n tr"
  by (simp add: checkIfStackExists_def)

lemma updateStack_withUploadVersion:
  "updateStack (withUploadVersion v e) t n tr = updateStack e t n tr"
  by (simp add: updateStack_def checkIfStackExists_withUploadVersion cong: if_cong)

lemma readOutputs_withUploadVersion:
  "readOutputs (withUploadVersion v e) n input tr = readOutputs e n input tr"
  by (simp add: readOutputs_def cong: option.case_cong sum.case_cong list.case_cong if_cong)

lemma deploy_withUploadVersion:
  "deploy (withUploadVersion v e) input pc = deploy e input pc"
proof -
  have "processUnits (withUploadVersion v e) pc (gatewayOf pc) (bucketNameOf pc) input (newBuilder (gatewayOf pc))
          = processUnits e pc (gatewayOf pc) (bucketNameOf pc) input (newBuilder (gatewayOf pc))"
    by (intro ext) (rule processUnits_withUploadVersion)
  moreover have "updateStack (withUploadVersion v e) = updateStack e"
    by (intro ext) (rule updateStack_withUploadVersion)
  moreover have "readOutputs (withUploadVersion v e) = readOutputs e"
    by (intro ext) (rule readOutputs_withUploadVersion)
  ultimately show ?thesis
    by (simp add: deploy_stages ensureBucket_withUploadVersion)
qed

text \<open>
  Where no id is emitted twice, the version pinned in a unit's function resource is the
  answer to the head-object query issued right after that unit's upload, and the version
  id that the upload answers with is not used.
\<close>

lemma pinned_when_ids_distinct:
  assumes "processUnits e pc (gatewayOf pc) bucket (pre @ item # post) (newBuilder (gatewayOf pc)) tr = (Inr b, tr')"
      and "distinct (resourceIds b)"
  shows "(\<exists>b1 b2 tr0 content r rest.
           processUnits e pc (gatewayOf pc) bucket pre (newBuilder (gatewayOf pc)) tr = (Inr b1, tr0)
         \<and> processUnit e pc (gatewayOf pc) bucket item b1 tr0
              = (Inr b2, tr0 @ [PutObject bucket (bucketKeyOf pc item) content,
                                HeadObject bucket (bucketKeyOf pc item)])
         \<and> tr' = tr0 @ [PutObject bucket (bucketKeyOf pc item) content,
                         HeadObject bucket (bucketKeyOf pc item)] @ rest
         \<and> respond e (tr0 @ [PutObject bucket (bucketKeyOf pc item) content])
              (HeadObject bucket (bucketKeyOf pc item)) = Inr r
         \<and> pinnedVersion (build b) (functionIdOf item) = optStr (VersionId r))
       \<and> processUnits (withUploadVersion v e) pc (gatewayOf pc) bucket (pre @ item # post)
            (newBuilder (gatewayOf pc)) tr = (Inr b, tr')
       \<and> deploy (withUploadVersion v e) (pre @ item # post) pc = deploy e (pre @ item # post) pc"
  using pinned_in_built[OF assms] assms(1)
  by (simp add: processUnits_withUploadVersion deploy_withUploadVersion)

section \<open>Colliding resource ids\<close>

lemmas adapter_run = deploy_def ensureBucket_def processUnit_def uploadZipToS3_def
  getLatestObjectVersion_def updateStack_def checkIfStackExists_def readOutputs_def
  stackIsComplete_def classOutputs_def getFunctionUrl_def getFunctionRuntime_def
  send_def Let_def account_def emptyReply_def alphanumericString_def addMethodRoutes_def

lemmas template_reading = build_def addAll_def addResource_def newBuilder_def unitResources_def
  resources_def templateRoutes_def routesIn_def pinnedVersion_def integrationTarget_def
  route_def invokePermission_def integration_def lambdaFunction_def executionRole_def
  apiStage_def apiDeployment_def apiOutputs_def fnJoin_def ref_def getAtt_def optStr_def
  Let_def alphanumericString_def functionIdOf_def

lemma overlap_handed_over:
  "promiseAll workstation (map (bundleClass workstation) (classes overlapProject)) = Inr [unitA, unitAB]"
  by (simp add: promiseAll_def rejections_def fulfilments_def bundleClass_def selectBundler_def
        workstation_def overlapProject_def unitA_def unitAB_def)

lemma overlap_run:
  "deploy (account None ''CREATE_COMPLETE'' ''https://abc123.example/prod'') [unitA, unitAB] overlapProject
     = (Inr [\<lparr> className = ''A'',
               methodOutputs = [\<lparr> outName = ''B'', outType = ''http'', outCronString = None,
                                  methodUrl = ''https://abc123.example/prod/A/B'' \<rparr>],
               functionUrl = ''https://abc123.example/prod/A'' \<rparr>,
             \<lparr> className = ''AB'', methodOutputs = [],
               functionUrl = ''https://abc123.example/prod/AB'' \<rparr>],
        [HeadBucket ''bucket-us-east-1-shop'',
         CreateBucket ''bucket-us-east-1-shop'' None,
         PutBucketVersioning ''bucket-us-east-1-shop'' ''Enabled'',
         PutObject ''bucket-us-east-1-shop'' ''genezio-shop/lambda-A.zip''
           ''zip:/tmp/genezio-a.ts/genezioDeploy.zip'',
         HeadObject ''bucket-us-east-1-shop'' ''genezio-shop/lambda-A.zip'',
         PutObject ''bucket-us-east-1-shop'' ''genezio-shop/lambda-AB.zip''
           ''zip:/tmp/genezio-ab.ts/genezioDeploy.zip'',
         HeadObject ''bucket-us-east-1-shop'' ''genezio-shop/lambda-AB.zip'',
         DescribeStacks ''genezio-shop'',
         CreateStack ''genezio-shop'' (build overlapBuilder) [''CAPABILITY_IAM''],
         WaitUntilStackCreateComplete 360 ''genezio-shop'',
         DescribeStacks ''genezio-shop''])"
  by (simp add: adapter_run overlapProject_def unitA_def unitAB_def overlapBuilder_def
        unitResources_def addAll_Cons)

lemma overlap_routes:
  "templateRoutes (build overlapBuilder)
     = [(JStr ''ANY /AB'', integrationTarget ''AB''), (JStr ''ANY /A'', integrationTarget ''A'')]"
  by (simp add: template_reading overlapBuilder_def unitA_def unitAB_def)


text \<open>
  C3. On the project with the classes \<open>A\<close> (http method \<open>B\<close>) and \<open>AB\<close>, which
  \<open>deployClasses\<close> hands to the adapter as two units, \<open>deploy\<close> succeeds, creates the
  stack and reports the URL \<open>https://abc123.example/prod/A/B\<close> for the method, but the
  template it sent has only the routes \<open>ANY /AB\<close> and \<open>ANY /A\<close>: the dedicated
  route \<open>ANY /A/B\<close> was added under the id \<open>RouteAB\<close> and then replaced by the
  catch-all route of \<open>AB\<close>, which has the same id.
\<close>

theorem dedicated_route_overwritten:
  "promiseAll workstation (map (bundleClass workstation) (classes overlapProject)) = Inr [unitA, unitAB]
   \<and> deploy (account None ''CREATE_COMPLETE'' ''https://abc123.example/prod'') [unitA, unitAB] overlapProject
     = (Inr [\<lparr> className = ''A'',
               methodOutputs = [\<lparr> outName = ''B'', outType = ''http'', outCronString = None,
                                  methodUrl = ''https://abc123.example/prod/A/B'' \<rparr>],
               functionUrl = ''https://abc123.example/prod/A'' \<rparr>,
             \<lparr> className = ''AB'', methodOutputs = [],
               functionUrl = ''https://abc123.example/prod/AB'' \<rparr>],
        [HeadBucket ''bucket-us-east-1-shop'',
         CreateBucket ''bucket-us-east-1-shop'' None,
         PutBucketVersioning ''bucket-us-east-1-shop'' ''Enabled'',
         PutObject ''bucket-us-east-1-shop'' ''genezio-shop/lambda-A.zip''
           ''zip:/tmp/genezio-a.ts/genezioDeploy.zip'',
         HeadObject ''bucket-us-east-1-shop'' ''genezio-shop/lambda-A.zip'',
         PutObject ''bucket-us-east-1-shop'' ''genezio-shop/lambda-AB.zip''
           ''zip:/tmp/genezio-ab.ts/genezioDeploy.zip'',
         HeadObject ''bucket-us-east-1-shop'' ''genezio-shop/lambda-AB.zip'',
         DescribeStacks ''genezio-shop'',
         CreateStack ''genezio-shop'' (build overlapBuilder) [''CAPABILITY_IAM''],
         WaitUntilStackCreateComplete 360 ''genezio-shop'',
         DescribeStacks ''genezio-shop''])
   \<and> templateRoutes (build overlapBuilder)
     = [(JStr ''ANY /AB'', integrationTarget ''AB''), (JStr ''ANY /A'', integrationTarget ''A'')]
   \<and> JStr ''ANY /A/B'' \<notin> fst ` set (templateRoutes (build overlapBuilder))"
  using overlap_handed_over overlap_run overlap_routes by simp

lemma twin_handed_over:
  "promiseAll workstation (map (bundleClass workstation) (classes twinProject))
     = Inr [unitMy_Class, unitMyClass]"
  by (simp add: promiseAll_def rejections_def fulfilments_def bundleClass_def selectBundler_def
        workstation_def twinProject_def unitMy_Class_def unitMyClass_def)

lemma twin_run:
  "deploy (account None ''CREATE_COMPLETE'' ''https://abc123.example/prod'') [unitMy_Class, unitMyClass]
       twinProject
     = (Inr [\<lparr> className = ''My_Class'', methodOutputs = [],
               functionUrl = ''https://abc123.example/prod/My_Class'' \<rparr>,
             \<lparr> className = ''MyClass'', methodOutputs = [],
               functionUrl = ''https://abc123.example/prod/MyClass'' \<rparr>],
        [HeadBucket ''bucket-us-east-1-shop'',
         CreateBucket ''bucket-us-east-1-shop'' None,
         PutBucketVersioning ''bucket-us-east-1-shop'' ''Enabled'',
         PutObject ''bucket-us-east-1-shop'' ''genezio-shop/lambda-My_Class.zip''
           ''zip:/tmp/genezio-my_class.ts/genezioDeploy.zip'',
         HeadObject ''bucket-us-east-1-shop'' ''genezio-shop/lambda-My_Class.zip'',
         PutObject ''bucket-us-east-1-shop'' ''genezio-shop/lambda-MyClass.zip''
           ''zip:/tmp/genezio-myclass.ts/genezioDeploy.zip'',
         HeadObject ''bucket-us-east-1-shop'' ''genezio-shop/lambda-MyClass.zip'',
         DescribeStacks ''genezio-shop'',
         CreateStack ''genezio-shop'' (build twinBuilder) [''CAPABILITY_IAM''],
         WaitUntilStackCreateComplete 360 ''genezio-shop'',
         DescribeStacks ''genezio-shop''])"
  by (simp add: adapter_run twinProject_def unitMy_Class_def unitMyClass_def twinBuilder_def
        unitResources_def addAll_Cons)

lemma twin_resolution:
  "respond (account None ''CREATE_COMPLETE'' ''https://abc123.example/prod'')
      [HeadBucket ''bucket-us-east-1-shop'',
       CreateBucket ''bucket-us-east-1-shop'' None,
       PutBucketVersioning ''bucket-us-east-1-shop'' ''Enabled'',
       PutObject ''bucket-us-east-1-shop'' ''genezio-shop/lambda-My_Class.zip''
         ''zip:/tmp/genezio-my_class.ts/genezioDeploy.zip'']
      (HeadObject ''bucket-us-east-1-shop'' ''genezio-shop/lambda-My_Class.zip'')
     = Inr \<lparr> VersionId = Some ''v-zip:/tmp/genezio-my_class.ts/genezioDeploy.zip'', Stacks = None \<rparr>"
  by (simp add: account_def)

lemma twin_pinned:
  "functionIdOf unitMy_Class = ''LambdaFunctionMyClass''"
  "functionIdOf unitMyClass = ''LambdaFunctionMyClass''"
  "pinnedVersion (build twinBuilder) ''LambdaFunctionMyClass''
     = JStr ''v-zip:/tmp/genezio-myclass.ts/genezioDeploy.zip''"
  by (simp_all add: template_reading twinBuilder_def unitMy_Class_def unitMyClass_def)

text \<open>
  C2. On the project with the classes \<open>My_Class\<close> and \<open>MyClass\<close>, which
  \<open>deployClasses\<close> hands to the adapter as two units, \<open>deploy\<close> succeeds and reports a
  URL for each unit. The head-object query after the upload of \<open>My_Class\<close> answers
  with the version of that archive, but both units have the function id
  \<open>LambdaFunctionMyClass\<close>, and the version pinned under it in the template sent to
  the stack is the one of the archive of \<open>MyClass\<close>: the function resource of
  \<open>My_Class\<close> was replaced and the version of its archive is pinned nowhere.
\<close>

theorem colliding_unit_pins_other_version:
  "promiseAll workstation (map (bundleClass workstation) (classes twinProject))
     = Inr [unitMy_Class, unitMyClass]
   \<and> deploy (account None ''CREATE_COMPLETE'' ''https://abc123.example/prod'') [unitMy_Class, unitMyClass]
       twinProject
     = (Inr [\<lparr> className = ''My_Class'', methodOutputs = [],
               functionUrl = ''https://abc123.example/prod/My_Class'' \<rparr>,
             \<lparr> className = ''MyClass'', methodOutputs = [],
               functionUrl = ''https://abc123.example/prod/MyClass'' \<rparr>],
        [HeadBucket ''bucket-us-east-1-shop'',
         CreateBucket ''bucket-us-east-1-shop'' None,
         PutBucketVersioning ''bucket-us-east-1-shop'' ''Enabled'',
         PutObject ''bucket-us-east-1-shop'' ''genezio-shop/lambda-My_Class.zip''
           ''zip:/tmp/genezio-my_class.ts/genezioDeploy.zip'',
         HeadObject ''bucket-us-east-1-shop'' ''genezio-shop/lambda-My_Class.zip'',
         PutObject ''bucket-us-east-1-shop'' ''genezio-shop/lambda-MyClass.zip''
           ''zip:/tmp/genezio-myclass.ts/genezioDeploy.zip'',
         HeadObject ''bucket-us-east-1-shop'' ''genezio-shop/lambda-MyClass.zip'',
         DescribeStacks ''genezio-shop'',
         CreateStack ''genezio-shop'' (build twinBuilder) [''CAPABILITY_IAM''],
         WaitUntilStackCreateComplete 360 ''genezio-shop'',
         DescribeStacks ''genezio-shop''])
   \<and> respond (account None ''CREATE_COMPLETE'' ''https://abc123.example/prod'')
      [HeadBucket ''bucket-us-east-1-shop'',
       CreateBucket ''bucket-us-east-1-shop'' None,
       PutBucketVersioning ''bucket-us-east-1-shop'' ''Enabled'',
       PutObject ''bucket-us-east-1-shop'' ''genezio-shop/lambda-My_Class.zip''
         ''zip:/tmp/genezio-my_class.ts/genezioDeploy.zip'']
      (HeadObject ''bucket-us-east-1-shop'' ''genezio-shop/lambda-My_Class.zip'')
     = Inr \<lparr> VersionId = Some ''v-zip:/tmp/genezio-my_class.ts/genezioDeploy.zip'', Stacks = None \<rparr>
   \<and> functionIdOf unitMy_Class = ''LambdaFunctionMyClass''
   \<and> pinnedVersion (build twinBuilder) (functionIdOf unitMy_Class)
     = JStr ''v-zip:/tmp/genezio-myclass.ts/genezioDeploy.zip''
   \<and> pinnedVersion (build twinBuilder) (functionIdOf unitMy_Class)
     \<noteq> optStr (Some ''v-zip:/tmp/genezio-my_class.ts/genezioDeploy.zip'')"
  using twin_handed_over twin_run twin_resolution twin_pinned by (simp add: optStr_def)

end
